theory Spec2Isabelle
  imports Main "HOL-Library.Word" "HOL-Library.AList"
begin

unbundle bit_operations_syntax

section \<open>The NetSIO hub of fujinet-bridge/netsiohub/hub.py\<close>

text \<open>
  A shallow embedding of the hub core: the per-client credit (\<open>NetSIOClient\<close>), the
  request/response correlator (\<open>NetSIOHub.SyncRequest\<close>), the two bounded queues, the
  inbound byte buffer (\<open>NetInBuffer\<close>), the UDP server (\<open>NetSIOServer\<close>,
  \<open>NetSIOHandler\<close>) and the routing functions of \<open>NetSIOHub\<close>.

  Python integers are \<open>int\<close>; the elements of a \<open>bytes\<close>/\<open>bytearray\<close> are
  \<open>8 word\<close>. Readings of \<open>time.time()\<close> are integers counting microseconds, and
  every function that reads the clock takes the reading as its argument \<open>t\<close>, one
  reading for the whole call.
  Mutation is explicit state passing. The threads of the source meet in the model only
  through the state: a function of the model is one call, run without interleaving.
\<close>

subsection \<open>Constants of netsiohub/netsio.py\<close>

type_synonym byte = "8 word"

text \<open>
  The module netsiohub/netsio.py, from which hub.py takes its constants with
  \<open>from netsiohub.netsio import *\<close>, is not among the sources. The constants whose
  values the specification gives are defined here; the others are the fields of
  \<open>netsio_consts\<close>, a parameter \<open>k\<close> of every function that uses one.
\<close>

definition NETSIO_DATA_BYTE :: int where
  \<comment> \<open>Modelled from the spec: the constant NETSIO_DATA_BYTE of netsiohub/netsio.py; "DATA_BYTE (0x01 by convention)".\<close>
  "NETSIO_DATA_BYTE = 0x01"

definition NETSIO_DATA_BLOCK :: int where
  \<comment> \<open>Modelled from the spec: the constant NETSIO_DATA_BLOCK of netsiohub/netsio.py; event table, id 0x02.\<close>
  "NETSIO_DATA_BLOCK = 0x02"

definition NETSIO_SYNC_RESPONSE :: int where
  \<comment> \<open>Modelled from the spec: the constant NETSIO_SYNC_RESPONSE of netsiohub/netsio.py; event table, id 0x81.\<close>
  "NETSIO_SYNC_RESPONSE = 0x81"

definition NETSIO_WARM_RESET :: int where
  \<comment> \<open>Modelled from the spec: the constant NETSIO_WARM_RESET of netsiohub/netsio.py; event table, id 0xFE.\<close>
  "NETSIO_WARM_RESET = 0xFE"

definition NETSIO_COLD_RESET :: int where
  \<comment> \<open>Modelled from the spec: the constant NETSIO_COLD_RESET of netsiohub/netsio.py; event table, id 0xFF.\<close>
  "NETSIO_COLD_RESET = 0xFF"

definition NETSIO_CONN_MGMT :: int where
  \<comment> \<open>Modelled from the spec: the constant NETSIO_CONN_MGMT of netsiohub/netsio.py; "Connection management (\<ge> 0xC0 by convention)".\<close>
  "NETSIO_CONN_MGMT = 0xC0"

definition DEFAULT_CREDIT :: int where
  \<comment> \<open>Modelled from the spec: the constant DEFAULT_CREDIT of netsiohub/netsio.py; "Constants: default credit 3".\<close>
  "DEFAULT_CREDIT = 3"

record netsio_consts =
  NETSIO_DEVICE_DISCONNECT :: int
  NETSIO_DEVICE_CONNECT :: int
  NETSIO_PING_REQUEST :: int
  NETSIO_PING_RESPONSE :: int
  NETSIO_ALIVE_REQUEST :: int
  NETSIO_ALIVE_RESPONSE :: int
  NETSIO_CREDIT_STATUS :: int
  NETSIO_CREDIT_UPDATE :: int
  NETSIO_EMPTY_SYNC :: int
  ATDEV_EMPTY_SYNC :: int
  ALIVE_EXPIRATION :: int

subsection \<open>Messages\<close>

record NetSIOMsg =
  msg_id :: int
  arg :: "byte list"

definition NetSIOMsg_noarg :: "int \<Rightarrow> NetSIOMsg" where
  \<comment> \<open>Modelled from the spec: the constructor NetSIOMsg(id) of netsiohub/netsio.py; "an event identifier plus a variable-length argument payload", here the empty payload.\<close>
  "NetSIOMsg_noarg i = \<lparr>msg_id = i, arg = []\<rparr>"

definition NetSIOMsg_int :: "int \<Rightarrow> int \<Rightarrow> NetSIOMsg" where
  \<comment> \<open>Modelled from the spec: the constructor NetSIOMsg(id, n) of netsiohub/netsio.py with an integer argument; the payload is the one byte n ("CREDIT_UPDATE carrying that credit").\<close>
  "NetSIOMsg_int i n = \<lparr>msg_id = i, arg = [word_of_int n]\<rparr>"

subsection \<open>NetSIOClient\<close>

type_synonym address = "string \<times> nat"

record NetSIOClient =
  address :: address
  expire_time :: int
  credit :: int

definition NetSIOClient_init :: "netsio_consts \<Rightarrow> address \<Rightarrow> int \<Rightarrow> NetSIOClient" where
  "NetSIOClient_init k a t = \<lparr>address = a, expire_time = t + ALIVE_EXPIRATION k, credit = 0\<rparr>"

definition expired :: "NetSIOClient \<Rightarrow> int \<Rightarrow> bool" where
  "expired c t = (if expire_time c < t then True else False)"

definition refresh :: "netsio_consts \<Rightarrow> NetSIOClient \<Rightarrow> int \<Rightarrow> NetSIOClient" where
  "refresh k c t = c\<lparr>expire_time := t + ALIVE_EXPIRATION k\<rparr>"

text \<open>\<open>update_credit\<close> returns the client and the flag \<open>update\<close>; the default of
  \<open>threshold\<close> is 0, which the callers of the model pass themselves.\<close>

definition update_credit :: "NetSIOClient \<Rightarrow> int \<Rightarrow> int \<Rightarrow> NetSIOClient \<times> bool" where
  "update_credit c cr threshold =
     (if credit c \<le> threshold then (c\<lparr>credit := cr\<rparr>, True) else (c, False))"

subsection \<open>NetSIOHub.SyncRequest\<close>

record SyncRequest =
  sn :: int
  request :: "int option"
  response :: "int option"
  completed :: bool

definition SyncRequest_init :: SyncRequest where
  "SyncRequest_init = \<lparr>sn = 0, request = None, response = None, completed = False\<rparr>"

definition set_request :: "SyncRequest \<Rightarrow> int \<Rightarrow> SyncRequest \<times> int" where
  "set_request s r =
     (let s' = s\<lparr>sn := (sn s + 1) AND 255, request := Some r, completed := False\<rparr>
      in (s', sn s'))"

definition set_response :: "SyncRequest \<Rightarrow> int \<Rightarrow> int \<Rightarrow> SyncRequest" where
  "set_response s resp sn' =
     (if request s \<noteq> None \<and> sn s = sn'
      then s\<lparr>request := None, response := Some resp, completed := True\<rparr>
      else s)"

text \<open>
  \<open>get_response\<close> is taken at the moment \<open>self.completed.wait(timeout)\<close> returns:
  the wait returns the flag of the event, true when a response has signalled completion
  and false when the timeout has elapsed without one. The result is \<open>self.response\<close>
  (\<open>None\<close> as long as no response was ever stored) or the given \<open>timout_value\<close>.
\<close>

definition get_response :: "SyncRequest \<Rightarrow> int option \<Rightarrow> SyncRequest \<times> int option" where
  "get_response s timout_value =
     (if completed s then (s\<lparr>request := None\<rparr>, response s)
      else (s\<lparr>request := None\<rparr>, timout_value))"

definition check_request :: "SyncRequest \<Rightarrow> int option \<times> int" where
  "check_request s = (request s, sn s)"

subsection \<open>Bounded queues\<close>

text \<open>
  \<open>queue.Queue(maxsize)\<close> of the Python library: a FIFO that is full when it holds
  \<open>maxsize\<close> items (never, when \<open>maxsize\<close> is 0). \<open>put(item)\<close>, as the hub calls
  it, blocks while the queue is full: \<open>Queue_put\<close> is \<open>None\<close> there, the call that
  does not return before a consumer has taken an item.
\<close>

record 'a bqueue =
  items :: "'a list"
  maxsize :: nat

definition Queue :: "nat \<Rightarrow> 'a bqueue" where
  "Queue n = \<lparr>items = [], maxsize = n\<rparr>"

definition Queue_qsize :: "'a bqueue \<Rightarrow> nat" where
  "Queue_qsize q = length (items q)"

definition Queue_full :: "'a bqueue \<Rightarrow> bool" where
  "Queue_full q = (0 < maxsize q \<and> maxsize q \<le> Queue_qsize q)"

definition Queue_put :: "'a bqueue \<Rightarrow> 'a \<Rightarrow> 'a bqueue option" where
  "Queue_put q x = (if Queue_full q then None else Some (q\<lparr>items := items q @ [x]\<rparr>))"

definition Queue_get_nowait :: "'a bqueue \<Rightarrow> ('a \<times> 'a bqueue) option" where
  "Queue_get_nowait q =
     (case items q of [] \<Rightarrow> None | x # xs \<Rightarrow> Some (x, q\<lparr>items := xs\<rparr>))"

definition clear_queue :: "'a bqueue \<Rightarrow> 'a bqueue" where
  \<comment> \<open>Modelled from the spec: the function clear_queue of netsiohub/netsio.py, which is not among the sources; the queue is "flushed", "drained": every item is removed.\<close>
  "clear_queue q = q\<lparr>items := []\<rparr>"

subsection \<open>The state of the hub\<close>

datatype log_line =
  Debug_CLEAR_DEV_QUEUE
  | Trace_device_queue_FULL NetSIOMsg
  | Debug_device_queue_FULL
  | Trace_queuing NetSIOMsg nat
  | Debug_device_queue nat
  | Debug_host_queue_FULL
  | Debug_host_queue nat
  | Debug_discarding NetSIOMsg
  | Debug_passed NetSIOMsg
  | Debug_replace NetSIOMsg
  | Debug_NET_FLUSH NetSIOMsg

text \<open>
  \<open>NetInBuffer\<close>: the bytes buffered, and the state of its thread \<open>buffer_monitor\<close>:
  \<open>monitor_deadline\<close> is the instant at which the timed wait of line 111 runs out, and
  \<open>None\<close> while the thread waits without a timeout (line 103).
\<close>

record NetInBuffer =
  data :: "byte list"
  monitor_deadline :: "int option"

text \<open>
  \<open>NetSIOServer\<close>: \<open>clients\<close> is the dictionary from addresses to clients, in its
  insertion order; \<open>server_sn\<close> is the field \<open>sn\<close> of the server.
\<close>

record NetSIOServer =
  clients :: "(address \<times> NetSIOClient) list"
  server_sn :: int
  inbuffer :: NetInBuffer

text \<open>
  \<open>NetSIOHub\<close>, with the objects it reaches: \<open>host_handler\<close> is the flag
  \<open>atdev_ready\<close> of the attached \<open>AtDevHandler\<close> (\<open>None\<close>: no handler),
  \<open>device_queue\<close> the queue of its \<open>NetSIOManager\<close>, \<open>server\<close> the UDP server of
  the manager. \<open>net_out\<close> lists the datagrams handed to \<open>sock.sendto\<close>, oldest first,
  each as the destination and the message; \<open>log_out\<close> lists the lines printed about the
  queues and the routing.
\<close>

record NetSIOHub =
  host_queue :: "NetSIOMsg bqueue"
  host_ready :: bool
  host_handler :: "bool option"
  sync :: SyncRequest
  device_queue :: "NetSIOMsg bqueue"
  server :: NetSIOServer
  net_out :: "(address \<times> NetSIOMsg) list"
  log_out :: "log_line list"

definition debug_print :: "log_line \<Rightarrow> NetSIOHub \<Rightarrow> NetSIOHub" where
  "debug_print l h = h\<lparr>log_out := log_out h @ [l]\<rparr>"

text \<open>
  How a call ends: it returns a value in a state, it raises an exception in the state
  reached, or its thread is suspended in \<open>put\<close> on a full queue, holding the message,
  with the rest of the call not yet run.
\<close>

datatype error = IndexError | AttributeError

datatype qname = Host_queue | Device_queue

datatype 'v outcome =
  Returns 'v NetSIOHub
  | Raises error NetSIOHub
  | Blocks qname NetSIOMsg NetSIOHub

definition and_then :: "'v outcome \<Rightarrow> ('v \<Rightarrow> NetSIOHub \<Rightarrow> 'w outcome) \<Rightarrow> 'w outcome" where
  "and_then m f =
     (case m of Returns v h \<Rightarrow> f v h | Raises e h \<Rightarrow> Raises e h | Blocks q x h \<Rightarrow> Blocks q x h)"

definition state_of :: "'v outcome \<Rightarrow> NetSIOHub" where
  "state_of m = (case m of Returns v h \<Rightarrow> h | Raises e h \<Rightarrow> h | Blocks q x h \<Rightarrow> h)"

definition getitem :: "'a list \<Rightarrow> nat \<Rightarrow> 'a option" where
  "getitem xs i = (if i < length xs then Some (xs ! i) else None)"

subsection \<open>NetSIOHub: messages from the peripherals\<close>

text \<open>\<open>msg.id == NETSIO_SYNC_RESPONSE and msg.arg[0] == sn\<close> (line 854); \<open>None\<close> is the IndexError of \<open>msg.arg[0]\<close>.\<close>

definition is_response_to :: "NetSIOMsg \<Rightarrow> int \<Rightarrow> bool option" where
  "is_response_to msg sn' =
     (if msg_id msg = NETSIO_SYNC_RESPONSE
      then (case getitem (arg msg) 0 of None \<Rightarrow> None | Some a0 \<Rightarrow> Some (uint a0 = sn'))
      else Some False)"

text \<open>Lines 856 to 864: the response to the request in flight.\<close>

definition sync_result :: "byte \<Rightarrow> byte \<Rightarrow> byte \<Rightarrow> int" where
  "sync_result a2 a3 a4 =
     NETSIO_SYNC_RESPONSE OR push_bit 8 (uint a2) OR push_bit 16 (uint a3) OR push_bit 24 (uint a4)"

definition complete_request :: "netsio_consts \<Rightarrow> NetSIOMsg \<Rightarrow> int \<Rightarrow> NetSIOHub \<Rightarrow> unit outcome" where
  "complete_request k msg sn' h =
     (case getitem (arg msg) 1 of
        None \<Rightarrow> Raises IndexError h
      | Some a1 \<Rightarrow>
          if uint a1 = NETSIO_EMPTY_SYNC k
          then Returns () (h\<lparr>sync := set_response (sync h) (ATDEV_EMPTY_SYNC k) sn'\<rparr>)
          else
            (case host_handler h of
               None \<Rightarrow> Raises AttributeError h
             | Some r \<Rightarrow>
                 let h1 = h\<lparr>host_handler := Some False\<rparr> in
                 (case (getitem (arg msg) 2, getitem (arg msg) 3, getitem (arg msg) 4) of
                    (Some a2, Some a3, Some a4) \<Rightarrow>
                      Returns () (h1\<lparr>sync := set_response (sync h1) (sync_result a2 a3 a4) sn'\<rparr>)
                  | _ \<Rightarrow> Raises IndexError h1)))"

text \<open>Lines 871 to 884: the message goes to the host queue, a sync response with a byte
  in it as that byte.\<close>

definition to_host_queue :: "netsio_consts \<Rightarrow> NetSIOMsg \<Rightarrow> NetSIOHub \<Rightarrow> unit outcome" where
  "to_host_queue k msg h =
     (case (if msg_id msg = NETSIO_SYNC_RESPONSE
            then (case getitem (arg msg) 1 of
                    None \<Rightarrow> None
                  | Some a1 \<Rightarrow> Some (uint a1 \<noteq> NETSIO_EMPTY_SYNC k))
            else Some False) of
        None \<Rightarrow> Raises IndexError h
      | Some False \<Rightarrow>
          let h2 = debug_print (if Queue_full (host_queue h) then Debug_host_queue_FULL
                                else Debug_host_queue (Queue_qsize (host_queue h))) h in
          (case Queue_put (host_queue h2) msg of
             None \<Rightarrow> Blocks Host_queue msg h2
           | Some q \<Rightarrow> Returns () (h2\<lparr>host_queue := q\<rparr>))
      | Some True \<Rightarrow>
          let h1 = debug_print (Debug_replace msg) h in
          (case getitem (arg msg) 2 of
             None \<Rightarrow> Raises IndexError h1
           | Some a2 \<Rightarrow>
               let msg' = msg\<lparr>msg_id := NETSIO_DATA_BYTE, arg := [a2]\<rparr>;
                   h2 = debug_print (if Queue_full (host_queue h1) then Debug_host_queue_FULL
                                     else Debug_host_queue (Queue_qsize (host_queue h1))) h1 in
               (case Queue_put (host_queue h2) msg' of
                  None \<Rightarrow> Blocks Host_queue msg' h2
                | Some q \<Rightarrow> Returns () (h2\<lparr>host_queue := q\<rparr>))))"

text \<open>\<open>NetSIOHub.handle_device_msg(msg, device)\<close>; the source never reads \<open>device\<close>.\<close>

definition handle_device_msg ::
  "netsio_consts \<Rightarrow> NetSIOMsg \<Rightarrow> NetSIOClient option \<Rightarrow> NetSIOHub \<Rightarrow> unit outcome" where
  "handle_device_msg k msg device h =
     (if \<not> host_ready h then Returns () h
      else
        (case check_request (sync h) of
           (None, sn') \<Rightarrow> to_host_queue k msg h
         | (Some req, sn') \<Rightarrow>
             (case is_response_to msg sn' of
                None \<Rightarrow> Raises IndexError h
              | Some True \<Rightarrow> complete_request k msg sn' h
              | Some False \<Rightarrow>
                  if msg_id msg = NETSIO_DATA_BYTE \<or> msg_id msg = NETSIO_DATA_BLOCK
                  then Returns () (debug_print (Debug_discarding msg) h)
                  else to_host_queue k msg (debug_print (Debug_passed msg) h))))"

subsection \<open>NetSIOManager and NetSIOHub: messages from the host\<close>

definition to_peripheral :: "NetSIOMsg \<Rightarrow> NetSIOHub \<Rightarrow> unit outcome" where
  "to_peripheral msg h =
     (let h1 = (if msg_id msg = NETSIO_COLD_RESET \<or> msg_id msg = NETSIO_WARM_RESET
                then (debug_print Debug_CLEAR_DEV_QUEUE h)
                       \<lparr>device_queue := clear_queue (device_queue h)\<rparr>
                else h);
          h2 = (if Queue_full (device_queue h1)
                then debug_print Debug_device_queue_FULL
                       (debug_print (Trace_device_queue_FULL msg) h1)
                else debug_print (Debug_device_queue (Queue_qsize (device_queue h1)))
                       (debug_print (Trace_queuing msg (Queue_qsize (device_queue h1))) h1))
      in case Queue_put (device_queue h2) msg of
           None \<Rightarrow> Blocks Device_queue msg h2
         | Some q \<Rightarrow> Returns () (h2\<lparr>device_queue := q\<rparr>))"

definition handle_host_msg :: "NetSIOMsg \<Rightarrow> NetSIOHub \<Rightarrow> unit outcome" where
  "handle_host_msg msg h = to_peripheral msg h"

definition connected :: "NetSIOServer \<Rightarrow> bool" where
  "connected srv = (length (clients srv) > 0)"

text \<open>
  \<open>NetSIOHub.handle_host_msg_sync(msg)\<close>. The call waits in \<open>get_response\<close> (line 841)
  while the other threads run: \<open>env\<close> is what they do to the state during that wait.
  \<open>msg.arg.append\<close> is the append of a \<open>bytearray\<close>.
\<close>

definition handle_host_msg_sync ::
  "netsio_consts \<Rightarrow> NetSIOMsg \<Rightarrow> (NetSIOHub \<Rightarrow> NetSIOHub) \<Rightarrow> NetSIOHub \<Rightarrow> int option outcome" where
  "handle_host_msg_sync k msg env h =
     (if msg_id msg = NETSIO_DATA_BLOCK
      then and_then (handle_host_msg msg h) (\<lambda>_ h1. Returns (Some (ATDEV_EMPTY_SYNC k)) h1)
      else
        let (s1, n) = set_request (sync h) (msg_id msg);
            msg1 = msg\<lparr>arg := arg msg @ [word_of_int n]\<rparr>;
            h1 = h\<lparr>sync := s1, host_queue := clear_queue (host_queue h)\<rparr>
        in and_then
             (if \<not> connected (server h1)
              then Returns ()
                     (h1\<lparr>sync := set_response (sync h1) (ATDEV_EMPTY_SYNC k) (sn (sync h1))\<rparr>)
              else handle_host_msg msg1 h1)
             (\<lambda>_ h2.
                let h3 = env h2;
                    (s3, result) = get_response (sync h3) (Some (ATDEV_EMPTY_SYNC k))
                in Returns result (h3\<lparr>sync := s3\<rparr>)))"

subsection \<open>NetInBuffer\<close>

definition BUFFER_SIZE :: nat where
  "BUFFER_SIZE = 130"

definition BUFFER_MAX_AGE :: int where
  \<comment> \<open>0.005 seconds, in microseconds\<close>
  "BUFFER_MAX_AGE = 5000"

text \<open>
  \<open>set_delay(t)\<close> notifies \<open>buffer_monitor\<close> and waits until the thread has taken the
  new timeout: whether the thread was in the wait of line 103 or in the timed wait of
  line 111 (where the notification makes \<open>reset\<close> true), it then starts the timed wait of
  line 111 afresh with the timeout \<open>t\<close>. \<open>now\<close> is the instant of the call.
\<close>

definition set_delay :: "int \<Rightarrow> int \<Rightarrow> NetInBuffer \<Rightarrow> NetInBuffer" where
  "set_delay tmout now b = b\<lparr>monitor_deadline := Some (now + tmout)\<rparr>"

text \<open>The message that \<open>flush\<close> makes under the lock, and the buffer it leaves.\<close>

definition flush_msg :: "NetInBuffer \<Rightarrow> NetSIOMsg option \<times> NetInBuffer" where
  "flush_msg b =
     (if length (data b) \<noteq> 0
      then (if length (data b) > 1
            then (Some \<lparr>msg_id = NETSIO_DATA_BLOCK, arg = data b\<rparr>, b\<lparr>data := []\<rparr>)
            else (Some \<lparr>msg_id = NETSIO_DATA_BYTE, arg = data b\<rparr>, b\<lparr>data := []\<rparr>))
      else (None, b))"

definition NetInBuffer_flush :: "netsio_consts \<Rightarrow> NetSIOHub \<Rightarrow> unit outcome" where
  "NetInBuffer_flush k h =
     (case flush_msg (inbuffer (server h)) of
        (None, b) \<Rightarrow> Returns () h
      | (Some msg, b) \<Rightarrow>
          handle_device_msg k msg None
            (debug_print (Debug_NET_FLUSH msg) (h\<lparr>server := (server h)\<lparr>inbuffer := b\<rparr>\<rparr>)))"

definition NetInBuffer_extend :: "netsio_consts \<Rightarrow> byte list \<Rightarrow> int \<Rightarrow> NetSIOHub \<Rightarrow> unit outcome" where
  "NetInBuffer_extend k b t h =
     (let buf = (inbuffer (server h))\<lparr>data := data (inbuffer (server h)) @ b\<rparr>;
          h1 = h\<lparr>server := (server h)\<lparr>inbuffer := buf\<rparr>\<rparr>;
          l = length (data buf)
      in if l \<ge> BUFFER_SIZE then NetInBuffer_flush k h1
         else Returns () (h1\<lparr>server := (server h1)\<lparr>inbuffer := set_delay BUFFER_MAX_AGE t buf\<rparr>\<rparr>))"

text \<open>
  The thread \<open>buffer_monitor\<close> at the instant \<open>t\<close>: when its timed wait has run out
  (\<open>reset\<close> is false), it flushes and goes back to the wait of line 103.
\<close>

definition buffer_monitor :: "netsio_consts \<Rightarrow> int \<Rightarrow> NetSIOHub \<Rightarrow> unit outcome" where
  "buffer_monitor k t h =
     (case monitor_deadline (inbuffer (server h)) of
        None \<Rightarrow> Returns () h
      | Some d \<Rightarrow>
          if d \<le> t
          then NetInBuffer_flush k
                 (h\<lparr>server := (server h)\<lparr>inbuffer := (inbuffer (server h))\<lparr>monitor_deadline := None\<rparr>\<rparr>\<rparr>)
          else Returns () h)"

subsection \<open>NetSIOServer\<close>

text \<open>\<open>send_to_client\<close>: the datagram is the byte \<open>msg.id\<close> followed by \<open>msg.arg\<close>;
  the model records the destination and the message.\<close>

definition send_to_client :: "NetSIOClient \<Rightarrow> NetSIOMsg \<Rightarrow> NetSIOHub \<Rightarrow> NetSIOHub" where
  "send_to_client c msg h = h\<lparr>net_out := net_out h @ [(address c, msg)]\<rparr>"

definition get_client :: "NetSIOServer \<Rightarrow> address \<Rightarrow> NetSIOClient option" where
  "get_client srv a = map_of (clients srv) a"

definition set_client :: "address \<Rightarrow> NetSIOClient \<Rightarrow> NetSIOHub \<Rightarrow> NetSIOHub" where
  \<comment> \<open>the client object under the key a, after a method has changed its fields\<close>
  "set_client a c h = h\<lparr>server := (server h)\<lparr>clients := AList.update a c (clients (server h))\<rparr>\<rparr>"

definition register_client :: "netsio_consts \<Rightarrow> address \<Rightarrow> int \<Rightarrow> NetSIOHub \<Rightarrow> unit outcome" where
  "register_client k a t h =
     (let client = (case map_of (clients (server h)) a of
                      None \<Rightarrow> NetSIOClient_init k a t
                    | Some c \<Rightarrow> refresh k c t);
          (client1, _) = update_credit client DEFAULT_CREDIT 0;
          h1 = set_client a client1 h;
          h2 = send_to_client client1 (NetSIOMsg_int (NETSIO_CREDIT_UPDATE k) DEFAULT_CREDIT) h1
      in handle_device_msg k (NetSIOMsg_noarg (NETSIO_DEVICE_CONNECT k)) (Some client1) h2)"

definition deregister_client :: "netsio_consts \<Rightarrow> address \<Rightarrow> bool \<Rightarrow> NetSIOHub \<Rightarrow> unit outcome" where
  "deregister_client k a exp h =
     (case map_of (clients (server h)) a of
        None \<Rightarrow> Returns () h
      | Some client \<Rightarrow>
          handle_device_msg k (NetSIOMsg_noarg (NETSIO_DEVICE_DISCONNECT k)) (Some client)
            (h\<lparr>server := (server h)\<lparr>clients := AList.delete a (clients (server h))\<rparr>\<rparr>))"

fun deregister_all :: "netsio_consts \<Rightarrow> NetSIOClient list \<Rightarrow> NetSIOHub \<Rightarrow> unit outcome" where
  "deregister_all k [] h = Returns () h"
| "deregister_all k (c # cs) h =
     and_then (deregister_client k (address c) True h) (\<lambda>_ h1. deregister_all k cs h1)"

definition expire_clients :: "netsio_consts \<Rightarrow> int \<Rightarrow> NetSIOHub \<Rightarrow> unit outcome" where
  "expire_clients k t h =
     deregister_all k (filter (\<lambda>c. expired c t) (map snd (clients (server h)))) h"

text \<open>The loop of \<open>send_to_all\<close> over the clients: the state after the sends, and the flag \<open>expire\<close>.\<close>

fun send_loop :: "NetSIOMsg \<Rightarrow> int \<Rightarrow> NetSIOClient list \<Rightarrow> bool \<Rightarrow> NetSIOHub \<Rightarrow> NetSIOHub \<times> bool" where
  "send_loop msg t [] expire h = (h, expire)"
| "send_loop msg t (c # cs) expire h =
     (if expired c t then send_loop msg t cs True h
      else send_loop msg t cs expire (send_to_client c msg h))"

definition send_to_all :: "netsio_consts \<Rightarrow> NetSIOMsg \<Rightarrow> int \<Rightarrow> NetSIOHub \<Rightarrow> unit outcome" where
  "send_to_all k msg t h =
     (let cs = map snd (clients (server h));
          msg1 = msg\<lparr>arg := arg msg @ [word_of_int (server_sn (server h))]\<rparr>;
          h1 = h\<lparr>server := (server h)\<lparr>server_sn := (1 + server_sn (server h)) AND 255\<rparr>\<rparr>;
          (h2, expire) = send_loop msg1 t cs False h1
      in if expire then expire_clients k t h2 else Returns () h2)"

text \<open>One turn of the loop of \<open>NetOutThread.run\<close>, which waits while the queue is empty;
  the stop sign \<open>None\<close> of \<open>NetOutThread.stop\<close> is not among the messages of the model.\<close>

definition NetOutThread_run :: "netsio_consts \<Rightarrow> int \<Rightarrow> NetSIOHub \<Rightarrow> unit outcome" where
  "NetOutThread_run k t h =
     (case Queue_get_nowait (device_queue h) of
        None \<Rightarrow> Returns () h
      | Some (msg, q) \<Rightarrow> send_to_all k msg t (h\<lparr>device_queue := q\<rparr>))"

text \<open>The loop of \<open>credit_clients\<close>: the clients after it, and the datagrams it sends.\<close>

fun credit_loop ::
  "int \<Rightarrow> NetSIOMsg \<Rightarrow> (address \<times> NetSIOClient) list
     \<Rightarrow> (address \<times> NetSIOClient) list \<times> (address \<times> NetSIOMsg) list" where
  "credit_loop cr msg [] = ([], [])"
| "credit_loop cr msg ((a, c) # cs) =
     (let (c1, upd) = update_credit c cr 0;
          (cs1, out) = credit_loop cr msg cs
      in ((a, c1) # cs1, (if upd then [(address c1, msg)] else []) @ out))"

definition credit_clients :: "netsio_consts \<Rightarrow> NetSIOHub \<Rightarrow> NetSIOHub" where
  "credit_clients k h =
     (let cr = DEFAULT_CREDIT - int (Queue_qsize (host_queue h)) in
      if cr \<ge> 2
      then (let msg = NetSIOMsg_int (NETSIO_CREDIT_UPDATE k) cr;
                (cs1, out) = credit_loop cr msg (clients (server h))
            in h\<lparr>server := (server h)\<lparr>clients := cs1\<rparr>, net_out := net_out h @ out\<rparr>)
      else h)"

subsection \<open>NetSIOHandler\<close>

text \<open>The branch of \<open>handle\<close> for \<open>NETSIO_ALIVE_REQUEST\<close> (lines 308 to 320).\<close>

definition handle_alive_request ::
  "netsio_consts \<Rightarrow> NetSIOMsg \<Rightarrow> address \<Rightarrow> int \<Rightarrow> NetSIOHub \<Rightarrow> unit outcome" where
  "handle_alive_request k msg ca t h =
     (case get_client (server h) ca of
        None \<Rightarrow> Returns () h
      | Some client \<Rightarrow>
          let c1 = refresh k client t;
              c2 = (if arg msg \<noteq> [] \<and> length (arg msg) > 0
                    then fst (update_credit c1 (uint (arg msg ! 0)) 0)
                    else c1)
          in Returns ()
               (send_to_client c2 (NetSIOMsg_noarg (NETSIO_ALIVE_RESPONSE k)) (set_client ca c2 h)))"

text \<open>The branch of \<open>handle\<close> for \<open>NETSIO_CREDIT_STATUS\<close> (lines 321 to 329).\<close>

definition handle_credit_status ::
  "netsio_consts \<Rightarrow> NetSIOMsg \<Rightarrow> address \<Rightarrow> NetSIOHub \<Rightarrow> unit outcome" where
  "handle_credit_status k msg ca h =
     (case get_client (server h) ca of
        None \<Rightarrow> Returns () h
      | Some client \<Rightarrow>
          if length (arg msg) \<noteq> 0
          then (let c1 = fst (update_credit client (uint (arg msg ! 0)) 10);
                    cr = DEFAULT_CREDIT - int (Queue_qsize (host_queue h))
                in if cr \<ge> 2 \<and> snd (update_credit c1 cr 0)
                   then Returns ()
                          (send_to_client (fst (update_credit c1 cr 0))
                             (NetSIOMsg_int (NETSIO_CREDIT_UPDATE k) cr)
                             (set_client ca (fst (update_credit c1 cr 0)) h))
                   else Returns () (set_client ca c1 h))
          else Returns () h)"

text \<open>
  \<open>NetSIOHandler.handle\<close> for the datagram \<open>data\<close> received from the address \<open>ca\<close> at
  the instant \<open>t\<close>.
\<close>

definition handle :: "netsio_consts \<Rightarrow> byte list \<Rightarrow> address \<Rightarrow> int \<Rightarrow> NetSIOHub \<Rightarrow> unit outcome" where
  "handle k dgram ca t h =
     (case dgram of
        [] \<Rightarrow> Raises IndexError h
      | d0 # rest \<Rightarrow>
          let msg = \<lparr>msg_id = uint d0, arg = rest\<rparr> in
          if msg_id msg < NETSIO_CONN_MGMT then
            (case get_client (server h) ca of
               None \<Rightarrow> Returns () h
             | Some client \<Rightarrow>
                 if expired client t then deregister_client k (address client) True h
                 else
                   let h1 = set_client ca (refresh k client t) h in
                   if msg_id msg = NETSIO_DATA_BYTE then NetInBuffer_extend k (arg msg) t h1
                   else and_then (NetInBuffer_flush k h1)
                          (\<lambda>_ h2. handle_device_msg k msg (Some (refresh k client t)) h2))
          else if msg_id msg = NETSIO_DEVICE_DISCONNECT k then deregister_client k ca False h
          else if msg_id msg = NETSIO_DEVICE_CONNECT k then register_client k ca t h
          else if msg_id msg = NETSIO_PING_REQUEST k
          then Returns ()
                 (send_to_client (NetSIOClient_init k ca t) (NetSIOMsg_noarg (NETSIO_PING_RESPONSE k)) h)
          else if msg_id msg = NETSIO_ALIVE_REQUEST k then handle_alive_request k msg ca t h
          else if msg_id msg = NETSIO_CREDIT_STATUS k then handle_credit_status k msg ca h
          else Returns () h)"

subsection \<open>Initial state, and constants for the examples\<close>

text \<open>
  The state that the constructors make: \<open>NetSIOHub.__init__\<close> (a host queue of 8, no
  host), \<open>NetSIOManager.__init__\<close> (a device queue of 16), \<open>NetSIOServer.__init__\<close>
  and \<open>NetInBuffer.__init__\<close>.
\<close>

definition NetSIOHub_init :: NetSIOHub where
  "NetSIOHub_init =
     \<lparr>host_queue = Queue 8, host_ready = False, host_handler = None,
      sync = SyncRequest_init, device_queue = Queue 16,
      server = \<lparr>clients = [], server_sn = 0,
                inbuffer = \<lparr>data = [], monitor_deadline = None\<rparr>\<rparr>,
      net_out = [], log_out = []\<rparr>"

text \<open>\<open>NetSIOHub.host_connected\<close>, for a handler whose \<open>atdev_ready\<close> is set (line 561).\<close>

definition host_connected :: "NetSIOHub \<Rightarrow> NetSIOHub" where
  "host_connected h = h\<lparr>host_handler := Some True, host_ready := True\<rparr>"


text \<open>
  The examples below need values for the constants that the specification leaves open.
  They take the connection management events from 0xC0 upwards, 0 for both empty
  markers and 20 seconds for the expiration.
\<close>

definition example_consts :: netsio_consts where
  "example_consts =
     \<lparr>NETSIO_DEVICE_DISCONNECT = 0xC0, NETSIO_DEVICE_CONNECT = 0xC1,
      NETSIO_PING_REQUEST = 0xC2, NETSIO_PING_RESPONSE = 0xC3,
      NETSIO_ALIVE_REQUEST = 0xC4, NETSIO_ALIVE_RESPONSE = 0xC5,
      NETSIO_CREDIT_STATUS = 0xC6, NETSIO_CREDIT_UPDATE = 0xC7,
      NETSIO_EMPTY_SYNC = 0, ATDEV_EMPTY_SYNC = 0, ALIVE_EXPIRATION = 20000000\<rparr>"

text \<open>Every registered client holds a credit from 0 to \<open>b\<close>.\<close>

definition credits_within :: "int \<Rightarrow> NetSIOHub \<Rightarrow> bool" where
  "credits_within b h =
     list_all (\<lambda>(a, c). 0 \<le> credit c \<and> credit c \<le> b) (clients (server h))"


section \<open>Properties\<close>

text \<open>
  C1. \<open>SyncRequest.set_response(value, sn')\<close>: when no request is in flight or \<open>sn'\<close> is
  not the serial number of the request in flight, the whole slot, and with it the stored
  response and the completion flag, is left as it was; the value is stored and completion
  signalled exactly when a request is in flight and \<open>sn'\<close> is its serial number.
\<close>

theorem set_response_matching_only:
  "(request s = None \<or> sn s \<noteq> sn' \<longrightarrow>
      set_response s v sn' = s
      \<and> response (set_response s v sn') = response s
      \<and> completed (set_response s v sn') = completed s)
   \<and> (request s \<noteq> None \<and> sn s = sn' \<longrightarrow>
      response (set_response s v sn') = Some v
      \<and> completed (set_response s v sn')
      \<and> request (set_response s v sn') = None)
   \<and> (set_response s v sn' \<noteq> s \<longrightarrow> request s \<noteq> None \<and> sn s = sn')"
  by (simp add: set_response_def)

theorem set_response_matching_only_witness:
  "set_response \<lparr>sn = 7, request = Some 0x18, response = None, completed = False\<rparr> 0x4181 8
     = \<lparr>sn = 7, request = Some 0x18, response = None, completed = False\<rparr>
   \<and> set_response \<lparr>sn = 7, request = None, response = Some 5, completed = False\<rparr> 0x4181 7
     = \<lparr>sn = 7, request = None, response = Some 5, completed = False\<rparr>
   \<and> response (set_response \<lparr>sn = 7, request = Some 0x18, response = None, completed = False\<rparr> 0x4181 7)
     = Some 0x4181
   \<and> completed (set_response \<lparr>sn = 7, request = Some 0x18, response = None, completed = False\<rparr> 0x4181 7)"
  using set_response_matching_only
    [of "\<lparr>sn = 7, request = Some 0x18, response = None, completed = False\<rparr>" 8 "0x4181"]
    set_response_matching_only
    [of "\<lparr>sn = 7, request = None, response = Some 5, completed = False\<rparr>" 7 "0x4181"]
    set_response_matching_only
    [of "\<lparr>sn = 7, request = Some 0x18, response = None, completed = False\<rparr>" 7 "0x4181"]
  by simp

text \<open>
  C10. \<open>NetSIOClient.update_credit(credit, threshold)\<close> returns True exactly when the
  stored credit is at most \<open>threshold\<close> at the call; it then stores the given value, and
  otherwise leaves the client as it was.
\<close>

theorem update_credit_threshold:
  "(snd (update_credit c cr threshold) \<longleftrightarrow> credit c \<le> threshold)
   \<and> (credit c \<le> threshold \<longrightarrow> fst (update_credit c cr threshold) = c\<lparr>credit := cr\<rparr>)
   \<and> (\<not> credit c \<le> threshold \<longrightarrow> fst (update_credit c cr threshold) = c)"
  by (simp add: update_credit_def)

theorem update_credit_threshold_witness:
  "update_credit \<lparr>address = (''127.0.0.1'', 40000), expire_time = 0, credit = 0\<rparr> 3 0
     = (\<lparr>address = (''127.0.0.1'', 40000), expire_time = 0, credit = 3\<rparr>, True)
   \<and> update_credit \<lparr>address = (''127.0.0.1'', 40000), expire_time = 0, credit = 1\<rparr> 3 0
     = (\<lparr>address = (''127.0.0.1'', 40000), expire_time = 0, credit = 1\<rparr>, False)"
  using update_credit_threshold
    [of "\<lparr>address = (''127.0.0.1'', 40000), expire_time = 0, credit = 0\<rparr>" 3 0]
    update_credit_threshold
    [of "\<lparr>address = (''127.0.0.1'', 40000), expire_time = 0, credit = 1\<rparr>" 3 0]
  by (simp add: prod_eq_iff)

subsection \<open>The packed result of a sync response\<close>


lemma drop_bit_8_uint_byte: "drop_bit 8 (uint (a::byte)) = 0"
  by (rule bit_eqI) (auto simp: bit_simps dest: bit_imp_le_length)

lemma byte_or_push_bit: "uint (a::byte) OR push_bit 8 (uint (b::byte)) = uint a + 256 * uint b"
proof -
  have "uint a + push_bit 8 (uint b) = uint a OR push_bit 8 (uint b)"
    by (rule disjunctive_add_eq_or, rule bit_eqI) (auto simp: bit_simps dest: bit_imp_le_length)
  then show ?thesis by (simp add: push_bit_eq_mult)
qed

lemma sync_result_tag: "take_bit 8 (sync_result a2 a3 a4) = 0x81"
  by (simp add: sync_result_def NETSIO_SYNC_RESPONSE_def take_bit_push_bit)

lemma sync_result_ack: "take_bit 8 (drop_bit 8 (sync_result a2 a3 a4)) = uint a2"
  by (simp add: sync_result_def NETSIO_SYNC_RESPONSE_def take_bit_push_bit drop_bit_push_bit bintr_uint)

lemma sync_result_size: "drop_bit 16 (sync_result a2 a3 a4) = uint a3 + 256 * uint a4"
  by (simp add: sync_result_def NETSIO_SYNC_RESPONSE_def drop_bit_push_bit
      drop_bit_8_uint_byte byte_or_push_bit)

lemma sync_result_32: "take_bit 32 (sync_result a2 a3 a4) = sync_result a2 a3 a4"
  by (simp add: sync_result_def NETSIO_SYNC_RESPONSE_def take_bit_push_bit bintr_uint)

lemma handle_device_msg_current_response:
  assumes "host_ready h" and "host_handler h = Some r" and "request (sync h) = Some req"
    and "msg_id msg = NETSIO_SYNC_RESPONSE" and "arg msg = a0 # a1 # a2 # a3 # a4 # rest"
    and "uint a0 = sn (sync h)" and "uint a1 \<noteq> NETSIO_EMPTY_SYNC k"
  shows "handle_device_msg k msg dev h =
           Returns () (h\<lparr>host_handler := Some False,
                         sync := (sync h)\<lparr>request := None,
                                           response := Some (sync_result a2 a3 a4),
                                           completed := True\<rparr>\<rparr>)"
  using assms
  by (simp add: handle_device_msg_def check_request_def is_response_to_def getitem_def
      complete_request_def set_response_def)

text \<open>
  C8. A SYNC_RESPONSE for the request in flight (a host attached, the first argument byte
  the serial number of the request, the second not the empty marker, the bytes of the
  acknowledgement and of the write size present) stores a result that has the event tag
  0x81 in bits 0 to 7, the acknowledgement byte in bits 8 to 15 and the write size, low
  byte first, in bits 16 to 31, and nothing above; for the acknowledgement 0x41 and the
  size 0 the result is 0x00004181.
\<close>

theorem sync_response_packing:
  assumes "host_ready h" and "host_handler h = Some r" and "request (sync h) = Some req"
    and "msg_id msg = NETSIO_SYNC_RESPONSE" and "arg msg = a0 # a1 # a2 # a3 # a4 # rest"
    and "uint a0 = sn (sync h)" and "uint a1 \<noteq> NETSIO_EMPTY_SYNC k"
  shows "response (sync (state_of (handle_device_msg k msg dev h))) = Some (sync_result a2 a3 a4)
     \<and> completed (sync (state_of (handle_device_msg k msg dev h)))
     \<and> take_bit 8 (sync_result a2 a3 a4) = 0x81
     \<and> take_bit 8 (drop_bit 8 (sync_result a2 a3 a4)) = uint a2
     \<and> drop_bit 16 (sync_result a2 a3 a4) = uint a3 + 256 * uint a4
     \<and> take_bit 32 (sync_result a2 a3 a4) = sync_result a2 a3 a4
     \<and> sync_result 0x41 0x00 0x00 = 0x00004181"
proof -
  have "sync_result 0x41 0x00 0x00 = 0x00004181"
    by (simp add: sync_result_def NETSIO_SYNC_RESPONSE_def)
  then show ?thesis
    by (simp add: handle_device_msg_current_response [OF assms] state_of_def
        sync_result_tag sync_result_ack sync_result_size sync_result_32)
qed

theorem sync_response_packing_witness:
  "response (sync (state_of (handle_device_msg example_consts
       \<lparr>msg_id = 0x81, arg = [0x01, 0x01, 0x41, 0x00, 0x00]\<rparr> None
       ((host_connected NetSIOHub_init)\<lparr>sync := fst (set_request SyncRequest_init 0x18)\<rparr>))))
     = Some 0x00004181"
  using sync_response_packing [of
      "(host_connected NetSIOHub_init)\<lparr>sync := fst (set_request SyncRequest_init 0x18)\<rparr>"
      True "0x18" "\<lparr>msg_id = 0x81, arg = [0x01, 0x01, 0x41, 0x00, 0x00]\<rparr>"
      "0x01" "0x01" "0x41" "0x00" "0x00" "[]" example_consts None]
  by (simp add: host_connected_def NetSIOHub_init_def set_request_def SyncRequest_init_def
      NETSIO_SYNC_RESPONSE_def example_consts_def)

subsection \<open>A sync response after the timeout\<close>

lemma handle_device_msg_no_request:
  "request (sync h) = None \<Longrightarrow> host_ready h \<Longrightarrow>
     handle_device_msg k msg dev h = to_host_queue k msg h"
  by (simp add: handle_device_msg_def check_request_def)

lemma to_host_queue_sync: "sync (state_of (to_host_queue k msg h)) = sync h"
  by (simp add: to_host_queue_def state_of_def debug_print_def Let_def
      split: option.split bool.split)

lemma NetSIOMsg_replace: "(m::NetSIOMsg)\<lparr>msg_id := i, arg := a\<rparr> = \<lparr>msg_id = i, arg = a\<rparr>"
  by (cases m) simp

lemma to_host_queue_replace:
  assumes "msg_id msg = NETSIO_SYNC_RESPONSE" and "arg msg = a0 # a1 # a2 # rest"
    and "uint a1 \<noteq> NETSIO_EMPTY_SYNC k" and "\<not> Queue_full (host_queue h)"
  shows "to_host_queue k msg h =
           Returns () (h\<lparr>log_out := log_out h @ [Debug_replace msg,
                                                   Debug_host_queue (Queue_qsize (host_queue h))],
                         host_queue := (host_queue h)\<lparr>items := items (host_queue h)
                                          @ [\<lparr>msg_id = NETSIO_DATA_BYTE, arg = [a2]\<rparr>]\<rparr>\<rparr>)"
  using assms
  by (simp add: to_host_queue_def getitem_def debug_print_def Queue_put_def Queue_full_def
      Queue_qsize_def Let_def NetSIOMsg_replace)

lemma to_host_queue_as_is:
  assumes "msg_id msg \<noteq> NETSIO_SYNC_RESPONSE
           \<or> (\<exists>a0 a1 rest. arg msg = a0 # a1 # rest \<and> uint a1 = NETSIO_EMPTY_SYNC k)"
    and "\<not> Queue_full (host_queue h)"
  shows "to_host_queue k msg h =
           Returns () (h\<lparr>log_out := log_out h @ [Debug_host_queue (Queue_qsize (host_queue h))],
                         host_queue := (host_queue h)\<lparr>items := items (host_queue h) @ [msg]\<rparr>\<rparr>)"
  using assms
  by (auto simp add: to_host_queue_def getitem_def debug_print_def Queue_put_def Queue_full_def
      Queue_qsize_def Let_def)

text \<open>
C2, as the code has it. When the wait of \<open>get_response\<close> ends without a matching
  response, the call returns the empty indicator. A SYNC_RESPONSE that arrives afterwards
  leaves the slot, and the stored response with it, as they were; it is not discarded,
  though: with a host attached and room in the host queue, a response whose second byte
  is not the empty marker goes to the host as a DATA_BYTE carrying its third byte, and a
  response with the empty marker goes to the host queue as it is.
\<close>

theorem late_sync_response:
  assumes "\<not> completed (sync h)" and "msg_id msg = NETSIO_SYNC_RESPONSE"
  shows "snd (get_response (sync h) (Some (ATDEV_EMPTY_SYNC k))) = Some (ATDEV_EMPTY_SYNC k)
     \<and> sync (state_of (handle_device_msg k msg dev
                (h\<lparr>sync := fst (get_response (sync h) (Some (ATDEV_EMPTY_SYNC k)))\<rparr>)))
         = fst (get_response (sync h) (Some (ATDEV_EMPTY_SYNC k)))
     \<and> response (fst (get_response (sync h) (Some (ATDEV_EMPTY_SYNC k)))) = response (sync h)
     \<and> (host_ready h \<and> \<not> Queue_full (host_queue h)
          \<and> arg msg = a0 # a1 # a2 # rest \<and> uint a1 \<noteq> NETSIO_EMPTY_SYNC k \<longrightarrow>
        items (host_queue (state_of (handle_device_msg k msg dev
                (h\<lparr>sync := fst (get_response (sync h) (Some (ATDEV_EMPTY_SYNC k)))\<rparr>))))
         = items (host_queue h) @ [\<lparr>msg_id = NETSIO_DATA_BYTE, arg = [a2]\<rparr>])
     \<and> (host_ready h \<and> \<not> Queue_full (host_queue h)
          \<and> arg msg = a0 # a1 # rest \<and> uint a1 = NETSIO_EMPTY_SYNC k \<longrightarrow>
        items (host_queue (state_of (handle_device_msg k msg dev
                (h\<lparr>sync := fst (get_response (sync h) (Some (ATDEV_EMPTY_SYNC k)))\<rparr>))))
         = items (host_queue h) @ [msg])"
proof -
  let ?e = "Some (ATDEV_EMPTY_SYNC k)"
  let ?h = "h\<lparr>sync := fst (get_response (sync h) ?e)\<rparr>"
  have req: "request (sync ?h) = None"
    by (simp add: get_response_def)
  have 1: "snd (get_response (sync h) ?e) = ?e"
    using assms(1) by (simp add: get_response_def)
  have 2: "sync (state_of (handle_device_msg k msg dev ?h)) = fst (get_response (sync h) ?e)"
  proof (cases "host_ready h")
    case True
    then have "handle_device_msg k msg dev ?h = to_host_queue k msg ?h"
      using req by (simp add: handle_device_msg_no_request)
    then show ?thesis by (simp add: to_host_queue_sync)
  next
    case False
    then show ?thesis by (simp add: handle_device_msg_def state_of_def)
  qed
  have 3: "response (fst (get_response (sync h) ?e)) = response (sync h)"
    by (simp add: get_response_def)
  have 4: "items (host_queue (state_of (handle_device_msg k msg dev ?h)))
         = items (host_queue h) @ [\<lparr>msg_id = NETSIO_DATA_BYTE, arg = [a2]\<rparr>]"
    if "host_ready h" "\<not> Queue_full (host_queue h)" "arg msg = a0 # a1 # a2 # rest"
      "uint a1 \<noteq> NETSIO_EMPTY_SYNC k"
  proof -
    have "handle_device_msg k msg dev ?h = to_host_queue k msg ?h"
      using req that(1) by (simp add: handle_device_msg_no_request)
    then show ?thesis
      using that assms(2) by (simp add: to_host_queue_replace state_of_def)
  qed
  have 5: "items (host_queue (state_of (handle_device_msg k msg dev ?h)))
         = items (host_queue h) @ [msg]"
    if "host_ready h" "\<not> Queue_full (host_queue h)" "arg msg = a0 # a1 # rest"
      "uint a1 = NETSIO_EMPTY_SYNC k"
  proof -
    have "handle_device_msg k msg dev ?h = to_host_queue k msg ?h"
      using req that(1) by (simp add: handle_device_msg_no_request)
    then show ?thesis
      using that assms(2) by (simp add: to_host_queue_as_is state_of_def)
  qed
  from 1 2 3 4 5 show ?thesis by blast
qed

theorem late_sync_response_witness:
  "snd (get_response (sync ((host_connected NetSIOHub_init)\<lparr>sync := fst (set_request SyncRequest_init 0x18)\<rparr>))
          (Some (ATDEV_EMPTY_SYNC example_consts))) = Some 0
   \<and> items (host_queue (state_of (handle_device_msg example_consts
        \<lparr>msg_id = 0x81, arg = [0x01, 0x01, 0x41, 0x00, 0x00]\<rparr> None
        ((host_connected NetSIOHub_init)
           \<lparr>sync := fst (get_response (fst (set_request SyncRequest_init 0x18))
                            (Some (ATDEV_EMPTY_SYNC example_consts)))\<rparr>))))
      = [\<lparr>msg_id = 0x01, arg = [0x41]\<rparr>]"
  using late_sync_response [of
      "(host_connected NetSIOHub_init)\<lparr>sync := fst (set_request SyncRequest_init 0x18)\<rparr>"
      "\<lparr>msg_id = 0x81, arg = [0x01, 0x01, 0x41, 0x00, 0x00]\<rparr>" example_consts None
      "0x01" "0x01" "0x41" "[0x00, 0x00]"]
  by (simp add: host_connected_def NetSIOHub_init_def set_request_def SyncRequest_init_def
      NETSIO_SYNC_RESPONSE_def NETSIO_DATA_BYTE_def example_consts_def Queue_def Queue_full_def
      Queue_qsize_def get_response_def)

theorem late_sync_response_counterexample:
  "host_queue (state_of (handle_device_msg example_consts
        \<lparr>msg_id = 0x81, arg = [0x01, 0x01, 0x41, 0x00, 0x00]\<rparr> None
        ((host_connected NetSIOHub_init)
           \<lparr>sync := fst (get_response (fst (set_request SyncRequest_init 0x18))
                            (Some (ATDEV_EMPTY_SYNC example_consts)))\<rparr>)))
     = \<lparr>items = [\<lparr>msg_id = 0x01, arg = [0x41]\<rparr>], maxsize = 8\<rparr>
   \<and> host_queue ((host_connected NetSIOHub_init)
           \<lparr>sync := fst (get_response (fst (set_request SyncRequest_init 0x18))
                            (Some (ATDEV_EMPTY_SYNC example_consts)))\<rparr>)
     = \<lparr>items = [], maxsize = 8\<rparr>"
  by (simp add: handle_device_msg_def check_request_def to_host_queue_def getitem_def
      state_of_def debug_print_def Queue_put_def Queue_full_def Queue_qsize_def
      host_connected_def NetSIOHub_init_def set_request_def SyncRequest_init_def
      NETSIO_SYNC_RESPONSE_def NETSIO_DATA_BYTE_def example_consts_def Queue_def get_response_def)

subsection \<open>Credit recomputation\<close>

lemma credit_loop_eq:
  "credit_loop cr msg cs =
     (map (\<lambda>(a, c). (a, if credit c \<le> 0 then c\<lparr>credit := cr\<rparr> else c)) cs,
      map (\<lambda>(a, c). (address c, msg)) (filter (\<lambda>(a, c). credit c \<le> 0) cs))"
  by (induction cs) (auto simp add: update_credit_def)

text \<open>
C5, as the code has it. \<open>credit_clients\<close> recomputes the credit as
  \<open>DEFAULT_CREDIT\<close> minus the size of the host queue. When that value is at least 2,
  every client whose stored credit is 0 or less gets the value stored and is sent a
  CREDIT_UPDATE carrying it, in the order of the client table; every other client keeps
  its credit and is sent nothing. When the value is below 2 nothing changes.
\<close>

theorem credit_clients_waiting_only:
  "(2 \<le> DEFAULT_CREDIT - int (Queue_qsize (host_queue h)) \<longrightarrow>
      clients (server (credit_clients k h))
        = map (\<lambda>(a, c). (a, if credit c \<le> 0
                               then c\<lparr>credit := DEFAULT_CREDIT - int (Queue_qsize (host_queue h))\<rparr>
                               else c))
            (clients (server h))
      \<and> net_out (credit_clients k h)
        = net_out h
          @ map (\<lambda>(a, c). (address c,
                            NetSIOMsg_int (NETSIO_CREDIT_UPDATE k)
                              (DEFAULT_CREDIT - int (Queue_qsize (host_queue h)))))
              (filter (\<lambda>(a, c). credit c \<le> 0) (clients (server h))))
   \<and> (\<not> 2 \<le> DEFAULT_CREDIT - int (Queue_qsize (host_queue h)) \<longrightarrow> credit_clients k h = h)"
  by (simp add: credit_clients_def credit_loop_eq Let_def)

theorem credit_clients_waiting_only_witness:
  "clients (server (credit_clients example_consts
      (NetSIOHub_init\<lparr>server := (server NetSIOHub_init)\<lparr>clients :=
           [((''127.0.0.1'', 40000), \<lparr>address = (''127.0.0.1'', 40000), expire_time = 20000000, credit = 0\<rparr>),
            ((''127.0.0.1'', 40001), \<lparr>address = (''127.0.0.1'', 40001), expire_time = 20000000, credit = 1\<rparr>)]\<rparr>\<rparr>)))
     = [((''127.0.0.1'', 40000), \<lparr>address = (''127.0.0.1'', 40000), expire_time = 20000000, credit = 3\<rparr>),
        ((''127.0.0.1'', 40001), \<lparr>address = (''127.0.0.1'', 40001), expire_time = 20000000, credit = 1\<rparr>)]
   \<and> net_out (credit_clients example_consts
      (NetSIOHub_init\<lparr>server := (server NetSIOHub_init)\<lparr>clients :=
           [((''127.0.0.1'', 40000), \<lparr>address = (''127.0.0.1'', 40000), expire_time = 20000000, credit = 0\<rparr>),
            ((''127.0.0.1'', 40001), \<lparr>address = (''127.0.0.1'', 40001), expire_time = 20000000, credit = 1\<rparr>)]\<rparr>\<rparr>))
     = [((''127.0.0.1'', 40000), \<lparr>msg_id = 0xC7, arg = [3]\<rparr>)]
   \<and> credit_clients example_consts
        (NetSIOHub_init\<lparr>host_queue := \<lparr>items = [\<lparr>msg_id = 0x01, arg = [0x43]\<rparr>,
                                                   \<lparr>msg_id = 0x01, arg = [0x44]\<rparr>], maxsize = 8\<rparr>\<rparr>)
     = NetSIOHub_init\<lparr>host_queue := \<lparr>items = [\<lparr>msg_id = 0x01, arg = [0x43]\<rparr>,
                                                   \<lparr>msg_id = 0x01, arg = [0x44]\<rparr>], maxsize = 8\<rparr>\<rparr>"
  using credit_clients_waiting_only [of
      "NetSIOHub_init\<lparr>server := (server NetSIOHub_init)\<lparr>clients :=
           [((''127.0.0.1'', 40000), \<lparr>address = (''127.0.0.1'', 40000), expire_time = 20000000, credit = 0\<rparr>),
            ((''127.0.0.1'', 40001), \<lparr>address = (''127.0.0.1'', 40001), expire_time = 20000000, credit = 1\<rparr>)]\<rparr>\<rparr>"
      example_consts]
    credit_clients_waiting_only [of
      "NetSIOHub_init\<lparr>host_queue := \<lparr>items = [\<lparr>msg_id = 0x01, arg = [0x43]\<rparr>,
                                                   \<lparr>msg_id = 0x01, arg = [0x44]\<rparr>], maxsize = 8\<rparr>\<rparr>"
      example_consts]
  by (simp add: NetSIOHub_init_def DEFAULT_CREDIT_def Queue_qsize_def Queue_def
      NetSIOMsg_int_def example_consts_def)

theorem credit_clients_waiting_only_counterexample:
  "credit_clients example_consts
      (NetSIOHub_init\<lparr>server := (server NetSIOHub_init)\<lparr>clients :=
           [((''127.0.0.1'', 40001), \<lparr>address = (''127.0.0.1'', 40001), expire_time = 20000000, credit = 1\<rparr>)]\<rparr>\<rparr>)
     = NetSIOHub_init\<lparr>server := (server NetSIOHub_init)\<lparr>clients :=
           [((''127.0.0.1'', 40001), \<lparr>address = (''127.0.0.1'', 40001), expire_time = 20000000, credit = 1\<rparr>)]\<rparr>\<rparr>
   \<and> DEFAULT_CREDIT - int (Queue_qsize (host_queue NetSIOHub_init)) = 3"
  by (simp add: credit_clients_def update_credit_def NetSIOHub_init_def DEFAULT_CREDIT_def
      Queue_qsize_def Queue_def NetSIOMsg_int_def example_consts_def)

subsection \<open>The bounds of the credit\<close>

lemma to_host_queue_server: "server (state_of (to_host_queue k msg h)) = server h"
  by (simp add: to_host_queue_def state_of_def debug_print_def Let_def
      split: option.split bool.split)

lemma complete_request_server: "server (state_of (complete_request k msg n h)) = server h"
  by (simp add: complete_request_def state_of_def Let_def split: option.split)

lemma handle_device_msg_server: "server (state_of (handle_device_msg k msg dev h)) = server h"
proof (cases "host_ready h")
  case False
  then show ?thesis by (simp add: handle_device_msg_def state_of_def)
next
  case True
  show ?thesis
  proof (cases "request (sync h)")
    case None
    with True show ?thesis
      by (simp add: handle_device_msg_def check_request_def to_host_queue_server)
  next
    case (Some r)
    show ?thesis
    proof (cases "is_response_to msg (sn (sync h))")
      case None
      with True Some show ?thesis
        by (simp add: handle_device_msg_def check_request_def state_of_def)
    next
      case (Some b)
      with True \<open>request (sync h) = Some r\<close> show ?thesis
        by (cases b)
          (simp_all add: handle_device_msg_def check_request_def complete_request_server
            to_host_queue_server, simp_all add: state_of_def debug_print_def)
    qed
  qed
qed

lemma credits_within_server: "server h' = server h \<Longrightarrow> credits_within b h' = credits_within b h"
  by (simp add: credits_within_def)

lemma list_all_update:
  "list_all P xs \<Longrightarrow> P (a, c) \<Longrightarrow> list_all P (AList.update a c xs)"
  by (induction xs) auto

lemma list_all_delete: "list_all P xs \<Longrightarrow> list_all P (AList.delete a xs)"
  by (induction xs) auto

lemma credits_within_set_client:
  "credits_within b h \<Longrightarrow> 0 \<le> credit c \<Longrightarrow> credit c \<le> b \<Longrightarrow> credits_within b (set_client a c h)"
  by (simp add: credits_within_def set_client_def list_all_update)

lemma credits_within_get_client:
  "credits_within b h \<Longrightarrow> get_client (server h) a = Some c \<Longrightarrow> 0 \<le> credit c \<and> credit c \<le> b"
  by (auto simp add: credits_within_def get_client_def list_all_iff dest: map_of_SomeD)

lemma uint_byte_bounds: "0 \<le> uint (x::byte) \<and> uint x \<le> 255"
proof -
  have "uint x < 2 ^ LENGTH(8)" by (rule uint_lt2p)
  then show ?thesis by simp
qed

lemma credits_within_register_client:
  assumes "credits_within b h" and "DEFAULT_CREDIT \<le> b"
  shows "credits_within b (state_of (register_client k a t h))"
proof -
  let ?client = "case map_of (clients (server h)) a of
                   None \<Rightarrow> NetSIOClient_init k a t | Some c \<Rightarrow> refresh k c t"
  have c: "0 \<le> credit ?client \<and> credit ?client \<le> b"
    using assms credits_within_get_client [of b h a]
    by (auto simp add: NetSIOClient_init_def refresh_def get_client_def DEFAULT_CREDIT_def
        split: option.split)
  have c1: "0 \<le> credit (fst (update_credit ?client DEFAULT_CREDIT 0))
             \<and> credit (fst (update_credit ?client DEFAULT_CREDIT 0)) \<le> b"
    using c assms(2) by (simp add: update_credit_def DEFAULT_CREDIT_def)
  have "credits_within b (set_client a (fst (update_credit ?client DEFAULT_CREDIT 0)) h)"
    using assms(1) c1 by (simp add: credits_within_set_client)
  then have "credits_within b
      (send_to_client (fst (update_credit ?client DEFAULT_CREDIT 0))
         (NetSIOMsg_int (NETSIO_CREDIT_UPDATE k) DEFAULT_CREDIT)
         (set_client a (fst (update_credit ?client DEFAULT_CREDIT 0)) h))"
    by (simp add: credits_within_def send_to_client_def)
  then show ?thesis
    by (simp add: register_client_def Let_def split_beta
        credits_within_server [OF handle_device_msg_server])
qed

lemma credits_within_credit_clients:
  assumes "credits_within b h" and "DEFAULT_CREDIT \<le> b"
  shows "credits_within b (credit_clients k h)"
proof -
  have "list_all (\<lambda>(a, c). 0 \<le> credit c \<and> credit c \<le> b) (fst (credit_loop cr msg cs))"
    if "list_all (\<lambda>(a, c). 0 \<le> credit c \<and> credit c \<le> b) cs" "2 \<le> cr" "cr \<le> b"
    for cr msg cs
    using that by (induction cs) (auto simp add: update_credit_def split_beta)
  moreover have "DEFAULT_CREDIT - int (Queue_qsize (host_queue h)) \<le> b"
    using assms(2) by simp
  ultimately show ?thesis
    using assms(1)
    by (simp add: credit_clients_def credits_within_def Let_def split_beta)
qed

lemma credits_within_handle_credit_status:
  assumes "credits_within 255 h"
  shows "credits_within 255 (state_of (handle_credit_status k msg ca h))"
proof (cases "get_client (server h) ca")
  case None
  then show ?thesis using assms by (simp add: handle_credit_status_def state_of_def)
next
  case (Some client)
  have c: "0 \<le> credit client \<and> credit client \<le> 255"
    using assms Some by (rule credits_within_get_client)
  show ?thesis
    using assms Some c uint_byte_bounds [of "arg msg ! 0"]
    by (auto simp add: handle_credit_status_def state_of_def Let_def update_credit_def
        send_to_client_def credits_within_def set_client_def list_all_update DEFAULT_CREDIT_def)
qed

lemma credits_within_handle_alive_request:
  assumes "credits_within 255 h"
  shows "credits_within 255 (state_of (handle_alive_request k msg ca t h))"
proof (cases "get_client (server h) ca")
  case None
  then show ?thesis using assms by (simp add: handle_alive_request_def state_of_def)
next
  case (Some client)
  have c: "0 \<le> credit client \<and> credit client \<le> 255"
    using assms Some by (rule credits_within_get_client)
  show ?thesis
    using assms Some c uint_byte_bounds [of "arg msg ! 0"]
    by (auto simp add: handle_alive_request_def state_of_def Let_def update_credit_def
        send_to_client_def credits_within_def set_client_def list_all_update refresh_def)
qed


lemma credits_within_deregister_client:
  assumes "credits_within b h"
  shows "credits_within b (state_of (deregister_client k a e h))"
proof (cases "map_of (clients (server h)) a")
  case None
  then show ?thesis using assms by (simp add: deregister_client_def state_of_def)
next
  case (Some client)
  have "credits_within b (h\<lparr>server := (server h)\<lparr>clients := AList.delete a (clients (server h))\<rparr>\<rparr>)"
    using assms by (simp add: credits_within_def list_all_delete)
  then show ?thesis
    using Some
    by (simp add: deregister_client_def credits_within_server [OF handle_device_msg_server])
qed

lemma credits_within_flush:
  assumes "credits_within b h"
  shows "credits_within b (state_of (NetInBuffer_flush k h))"
proof (cases "fst (flush_msg (inbuffer (server h)))")
  case None
  then show ?thesis
    using assms by (simp add: NetInBuffer_flush_def state_of_def split_beta)
next
  case (Some msg)
  have "credits_within b (debug_print (Debug_NET_FLUSH msg)
          (h\<lparr>server := (server h)\<lparr>inbuffer := snd (flush_msg (inbuffer (server h)))\<rparr>\<rparr>))"
    using assms by (simp add: credits_within_def debug_print_def)
  then show ?thesis
    using Some
    by (simp add: NetInBuffer_flush_def split_beta
        credits_within_server [OF handle_device_msg_server])
qed

lemma credits_within_extend:
  assumes "credits_within b h"
  shows "credits_within b (state_of (NetInBuffer_extend k bs t h))"
proof -
  let ?h1 = "h\<lparr>server := (server h)\<lparr>inbuffer :=
               (inbuffer (server h))\<lparr>data := data (inbuffer (server h)) @ bs\<rparr>\<rparr>\<rparr>"
  have 1: "credits_within b ?h1"
    using assms by (simp add: credits_within_def)
  show ?thesis
  proof (cases "BUFFER_SIZE \<le> length (data (inbuffer (server h)) @ bs)")
    case True
    then show ?thesis
      using credits_within_flush [OF 1, of k] by (simp add: NetInBuffer_extend_def Let_def)
  next
    case False
    then show ?thesis
      using assms by (simp add: NetInBuffer_extend_def Let_def state_of_def credits_within_def)
  qed
qed

lemma state_of_Returns: "state_of (Returns v h) = h"
  by (simp add: state_of_def)

lemma credits_within_send_to_client:
  "credits_within b (send_to_client c m h) = credits_within b h"
  by (simp add: credits_within_def send_to_client_def)

lemma credits_within_handle:
  assumes "credits_within 255 h"
  shows "credits_within 255 (state_of (handle k dgram ca t h))"
proof (cases dgram)
  case Nil
  then show ?thesis using assms by (simp add: handle_def state_of_def)
next
  case (Cons d0 rest)
  let ?msg = "\<lparr>msg_id = uint d0, arg = rest\<rparr>"
  show ?thesis
  proof (cases "uint d0 < NETSIO_CONN_MGMT")
    case True
    show ?thesis
    proof (cases "get_client (server h) ca")
      case None
      with True Cons assms show ?thesis by (simp add: handle_def state_of_def)
    next
      case (Some client)
      have c: "0 \<le> credit client \<and> credit client \<le> 255"
        using assms Some by (rule credits_within_get_client)
      have 1: "credits_within 255 (set_client ca (refresh k client t) h)"
        using assms c by (simp add: credits_within_set_client refresh_def)
      have 2: "credits_within 255 (state_of (and_then (NetInBuffer_flush k h1)
                  (\<lambda>_ h2. handle_device_msg k ?msg (Some (refresh k client t)) h2)))"
        if "credits_within 255 h1" for h1
        using credits_within_flush [OF that, of k]
        by (cases "NetInBuffer_flush k h1")
          (simp_all add: and_then_def credits_within_server [OF handle_device_msg_server],
            simp_all add: state_of_def)
      show ?thesis
        using True Cons Some credits_within_deregister_client [OF assms]
          credits_within_extend [OF 1] 2 [OF 1]
        by (simp add: handle_def Let_def)
    qed
  next
    case False
    then show ?thesis
      using Cons assms
      by (simp add: handle_def Let_def DEFAULT_CREDIT_def state_of_Returns
          credits_within_send_to_client credits_within_deregister_client
          credits_within_register_client credits_within_handle_alive_request
          credits_within_handle_credit_status)
  qed
qed

text \<open>
C6, as the code has it. The stored credit of a registered client is never negative.
  Registration and the credit recomputation keep it within \<open>DEFAULT_CREDIT\<close>. The
  handling of CREDIT_STATUS and of ALIVE_REQUEST stores the byte that the client
  announces, so that after these, and after any datagram that \<open>handle\<close> receives, the
  credit is at most 255.
\<close>

theorem credit_bounds:
  assumes "credits_within 255 h"
  shows "credits_within 255 (state_of (register_client k a t h))
     \<and> credits_within 255 (credit_clients k h)
     \<and> credits_within 255 (state_of (handle_credit_status k msg ca h))
     \<and> credits_within 255 (state_of (handle_alive_request k msg ca t h))
     \<and> credits_within 255 (state_of (handle k dgram ca t h))
     \<and> (credits_within DEFAULT_CREDIT h \<longrightarrow>
          credits_within DEFAULT_CREDIT (state_of (register_client k a t h))
          \<and> credits_within DEFAULT_CREDIT (credit_clients k h))"
  using assms
  by (simp add: credits_within_register_client credits_within_credit_clients
      credits_within_handle_credit_status credits_within_handle_alive_request
      credits_within_handle DEFAULT_CREDIT_def)


theorem credit_bounds_witness:
  "credits_within 255 (state_of (handle example_consts [0xC6, 200] (''127.0.0.1'', 40000) 1000
      (NetSIOHub_init\<lparr>server := (server NetSIOHub_init)\<lparr>clients :=
         [((''127.0.0.1'', 40000),
           \<lparr>address = (''127.0.0.1'', 40000), expire_time = 20000000, credit = 3\<rparr>)]\<rparr>\<rparr>)))
   \<and> credits_within DEFAULT_CREDIT (credit_clients example_consts
      (NetSIOHub_init\<lparr>server := (server NetSIOHub_init)\<lparr>clients :=
         [((''127.0.0.1'', 40000),
           \<lparr>address = (''127.0.0.1'', 40000), expire_time = 20000000, credit = 3\<rparr>)]\<rparr>\<rparr>))"
  using credit_bounds [where
      h = "NetSIOHub_init\<lparr>server := (server NetSIOHub_init)\<lparr>clients :=
         [((''127.0.0.1'', 40000),
           \<lparr>address = (''127.0.0.1'', 40000), expire_time = 20000000, credit = 3\<rparr>)]\<rparr>\<rparr>"
      and k = example_consts and dgram = "[0xC6, 200]" and ca = "(''127.0.0.1'', 40000)"
      and t = 1000]
  by (simp add: credits_within_def NetSIOHub_init_def DEFAULT_CREDIT_def)

theorem credit_bounds_counterexample:
  "clients (server (state_of (handle example_consts [0xC1] (''127.0.0.1'', 40000) 0 NetSIOHub_init)))
     = [((''127.0.0.1'', 40000),
         \<lparr>address = (''127.0.0.1'', 40000), expire_time = 20000000, credit = 3\<rparr>)]
   \<and> clients (server (state_of (handle example_consts [0xC6, 200] (''127.0.0.1'', 40000) 1000
        (state_of (handle example_consts [0xC1] (''127.0.0.1'', 40000) 0 NetSIOHub_init)))))
     = [((''127.0.0.1'', 40000),
         \<lparr>address = (''127.0.0.1'', 40000), expire_time = 20000000, credit = 200\<rparr>)]
   \<and> DEFAULT_CREDIT = 3"
proof -
  have 1: "state_of (handle example_consts [0xC1] (''127.0.0.1'', 40000) 0 NetSIOHub_init)
      = NetSIOHub_init\<lparr>server := (server NetSIOHub_init)\<lparr>clients :=
           [((''127.0.0.1'', 40000),
             \<lparr>address = (''127.0.0.1'', 40000), expire_time = 20000000, credit = 3\<rparr>)]\<rparr>,
          net_out := [((''127.0.0.1'', 40000), \<lparr>msg_id = 0xC7, arg = [3]\<rparr>)]\<rparr>"
    by (simp add: handle_def register_client_def handle_device_msg_def state_of_def
        NetSIOClient_init_def update_credit_def set_client_def send_to_client_def
        NetSIOMsg_int_def NetSIOMsg_noarg_def NetSIOHub_init_def example_consts_def
        NETSIO_CONN_MGMT_def DEFAULT_CREDIT_def)
  show ?thesis
    unfolding 1
    by (simp add: handle_def handle_credit_status_def get_client_def state_of_def
        update_credit_def set_client_def send_to_client_def Queue_qsize_def Queue_def
        NetSIOMsg_int_def NetSIOHub_init_def example_consts_def
        NETSIO_CONN_MGMT_def DEFAULT_CREDIT_def)
qed

subsection \<open>The inbound buffer\<close>

lemma flush_msg_cases:
  "flush_msg b =
     (case data b of
        [] \<Rightarrow> (None, b)
      | [x] \<Rightarrow> (Some \<lparr>msg_id = NETSIO_DATA_BYTE, arg = [x]\<rparr>, b\<lparr>data := []\<rparr>)
      | x # y # zs \<Rightarrow> (Some \<lparr>msg_id = NETSIO_DATA_BLOCK, arg = x # y # zs\<rparr>, b\<lparr>data := []\<rparr>))"
  by (simp add: flush_msg_def split: list.split)

lemma flush_block:
  assumes "2 \<le> length (data (inbuffer (server h)))"
  shows "NetInBuffer_flush k h =
           handle_device_msg k \<lparr>msg_id = NETSIO_DATA_BLOCK, arg = data (inbuffer (server h))\<rparr> None
             (debug_print
                (Debug_NET_FLUSH \<lparr>msg_id = NETSIO_DATA_BLOCK, arg = data (inbuffer (server h))\<rparr>)
                (h\<lparr>server := (server h)\<lparr>inbuffer := (inbuffer (server h))\<lparr>data := []\<rparr>\<rparr>\<rparr>))"
  using assms
  by (cases "data (inbuffer (server h))") (auto simp add: NetInBuffer_flush_def flush_msg_def)

lemma flush_byte:
  assumes "data (inbuffer (server h)) = [x]"
  shows "NetInBuffer_flush k h =
           handle_device_msg k \<lparr>msg_id = NETSIO_DATA_BYTE, arg = [x]\<rparr> None
             (debug_print (Debug_NET_FLUSH \<lparr>msg_id = NETSIO_DATA_BYTE, arg = [x]\<rparr>)
                (h\<lparr>server := (server h)\<lparr>inbuffer := (inbuffer (server h))\<lparr>data := []\<rparr>\<rparr>\<rparr>))"
  using assms by (simp add: NetInBuffer_flush_def flush_msg_def)

lemma flush_empty:
  assumes "data (inbuffer (server h)) = []"
  shows "NetInBuffer_flush k h = Returns () h"
  using assms by (simp add: NetInBuffer_flush_def flush_msg_def)

lemma extend_flushes:
  assumes "BUFFER_SIZE \<le> length (data (inbuffer (server h)) @ bs)"
  shows "NetInBuffer_extend k bs t h =
           handle_device_msg k
             \<lparr>msg_id = NETSIO_DATA_BLOCK, arg = data (inbuffer (server h)) @ bs\<rparr> None
             (debug_print
                (Debug_NET_FLUSH
                   \<lparr>msg_id = NETSIO_DATA_BLOCK, arg = data (inbuffer (server h)) @ bs\<rparr>)
                (h\<lparr>server := (server h)\<lparr>inbuffer := (inbuffer (server h))\<lparr>data := []\<rparr>\<rparr>\<rparr>))"
proof -
  let ?h1 = "h\<lparr>server := (server h)\<lparr>inbuffer :=
               (inbuffer (server h))\<lparr>data := data (inbuffer (server h)) @ bs\<rparr>\<rparr>\<rparr>"
  have "2 \<le> length (data (inbuffer (server ?h1)))"
    using assms by (simp add: BUFFER_SIZE_def)
  from flush_block [OF this, of k] assms show ?thesis
    by (simp add: NetInBuffer_extend_def Let_def)
qed

lemma extend_restarts_timer:
  assumes "length (data (inbuffer (server h)) @ bs) < BUFFER_SIZE"
  shows "NetInBuffer_extend k bs t h =
           Returns ()
             (h\<lparr>server := (server h)\<lparr>inbuffer :=
                  (inbuffer (server h))\<lparr>data := data (inbuffer (server h)) @ bs,
                                         monitor_deadline := Some (t + 5000)\<rparr>\<rparr>\<rparr>)"
  using assms
  by (simp add: NetInBuffer_extend_def Let_def set_delay_def BUFFER_MAX_AGE_def)

text \<open>
C7, as the code has it. The bytes of DATA_BYTE datagrams accumulate in the buffer. An
  \<open>extend\<close> that brings the buffer to 130 bytes or more flushes it at once, as one
  DATA_BLOCK with every byte buffered. An \<open>extend\<close> that leaves it shorter restarts the
  timer of \<open>buffer_monitor\<close>: the buffer is flushed 5 ms after the most recent byte
  was buffered, not 5 ms after the first unflushed one. A flush of exactly one byte is a
  DATA_BYTE message, a flush of two or more bytes a single DATA_BLOCK message, and a
  flush of the empty buffer emits nothing.
\<close>

theorem coalescing_buffer:
  "(BUFFER_SIZE \<le> length (data (inbuffer (server h)) @ bs) \<longrightarrow>
      NetInBuffer_extend k bs t h =
        handle_device_msg k
          \<lparr>msg_id = NETSIO_DATA_BLOCK, arg = data (inbuffer (server h)) @ bs\<rparr> None
          (debug_print
             (Debug_NET_FLUSH
                \<lparr>msg_id = NETSIO_DATA_BLOCK, arg = data (inbuffer (server h)) @ bs\<rparr>)
             (h\<lparr>server := (server h)\<lparr>inbuffer := (inbuffer (server h))\<lparr>data := []\<rparr>\<rparr>\<rparr>)))
   \<and> (length (data (inbuffer (server h)) @ bs) < BUFFER_SIZE \<longrightarrow>
      NetInBuffer_extend k bs t h =
        Returns ()
          (h\<lparr>server := (server h)\<lparr>inbuffer :=
               (inbuffer (server h))\<lparr>data := data (inbuffer (server h)) @ bs,
                                      monitor_deadline := Some (t + 5000)\<rparr>\<rparr>\<rparr>))
   \<and> (monitor_deadline (inbuffer (server h)) = Some d \<and> d \<le> t \<longrightarrow>
      buffer_monitor k t h =
        NetInBuffer_flush k
          (h\<lparr>server := (server h)\<lparr>inbuffer :=
               (inbuffer (server h))\<lparr>monitor_deadline := None\<rparr>\<rparr>\<rparr>))
   \<and> (monitor_deadline (inbuffer (server h)) = Some d \<and> t < d \<longrightarrow>
      buffer_monitor k t h = Returns () h)
   \<and> (monitor_deadline (inbuffer (server h)) = None \<longrightarrow> buffer_monitor k t h = Returns () h)
   \<and> (data (inbuffer (server h)) = [x] \<longrightarrow>
      NetInBuffer_flush k h =
        handle_device_msg k \<lparr>msg_id = NETSIO_DATA_BYTE, arg = [x]\<rparr> None
          (debug_print (Debug_NET_FLUSH \<lparr>msg_id = NETSIO_DATA_BYTE, arg = [x]\<rparr>)
             (h\<lparr>server := (server h)\<lparr>inbuffer := (inbuffer (server h))\<lparr>data := []\<rparr>\<rparr>\<rparr>)))
   \<and> (2 \<le> length (data (inbuffer (server h))) \<longrightarrow>
      NetInBuffer_flush k h =
        handle_device_msg k \<lparr>msg_id = NETSIO_DATA_BLOCK, arg = data (inbuffer (server h))\<rparr> None
          (debug_print
             (Debug_NET_FLUSH \<lparr>msg_id = NETSIO_DATA_BLOCK, arg = data (inbuffer (server h))\<rparr>)
             (h\<lparr>server := (server h)\<lparr>inbuffer := (inbuffer (server h))\<lparr>data := []\<rparr>\<rparr>\<rparr>)))
   \<and> (data (inbuffer (server h)) = [] \<longrightarrow> NetInBuffer_flush k h = Returns () h)"
proof -
  have "buffer_monitor k t h =
          NetInBuffer_flush k
            (h\<lparr>server := (server h)\<lparr>inbuffer :=
                 (inbuffer (server h))\<lparr>monitor_deadline := None\<rparr>\<rparr>\<rparr>)"
    if "monitor_deadline (inbuffer (server h)) = Some d" "d \<le> t"
    using that by (simp add: buffer_monitor_def)
  moreover have "buffer_monitor k t h = Returns () h"
    if "monitor_deadline (inbuffer (server h)) = Some d" "t < d"
    using that by (simp add: buffer_monitor_def)
  moreover have "buffer_monitor k t h = Returns () h"
    if "monitor_deadline (inbuffer (server h)) = None"
    using that by (simp add: buffer_monitor_def)
  ultimately show ?thesis
    using extend_flushes [of h bs k t] extend_restarts_timer [of h bs k t]
      flush_byte [of h x k] flush_block [of h k] flush_empty [of h k]
    by blast
qed


theorem coalescing_buffer_witness:
  "NetInBuffer_extend example_consts [0x42] 4000
      ((host_connected NetSIOHub_init)\<lparr>server := (server NetSIOHub_init)\<lparr>inbuffer :=
          \<lparr>data = [0x41], monitor_deadline = Some 5000\<rparr>\<rparr>\<rparr>)
     = Returns ()
        ((host_connected NetSIOHub_init)\<lparr>server := (server NetSIOHub_init)\<lparr>inbuffer :=
          \<lparr>data = [0x41, 0x42], monitor_deadline = Some 9000\<rparr>\<rparr>\<rparr>)
   \<and> buffer_monitor example_consts 5000
      ((host_connected NetSIOHub_init)\<lparr>server := (server NetSIOHub_init)\<lparr>inbuffer :=
          \<lparr>data = [0x41], monitor_deadline = Some 5000\<rparr>\<rparr>\<rparr>)
     = NetInBuffer_flush example_consts
        ((host_connected NetSIOHub_init)\<lparr>server := (server NetSIOHub_init)\<lparr>inbuffer :=
          \<lparr>data = [0x41], monitor_deadline = None\<rparr>\<rparr>\<rparr>)
   \<and> NetInBuffer_flush example_consts
      ((host_connected NetSIOHub_init)\<lparr>server := (server NetSIOHub_init)\<lparr>inbuffer :=
          \<lparr>data = [0x41], monitor_deadline = Some 5000\<rparr>\<rparr>\<rparr>)
     = handle_device_msg example_consts \<lparr>msg_id = NETSIO_DATA_BYTE, arg = [0x41]\<rparr> None
        ((host_connected NetSIOHub_init)\<lparr>server := (server NetSIOHub_init)\<lparr>inbuffer :=
          \<lparr>data = [], monitor_deadline = Some 5000\<rparr>\<rparr>,
          log_out := [Debug_NET_FLUSH \<lparr>msg_id = NETSIO_DATA_BYTE, arg = [0x41]\<rparr>]\<rparr>)
   \<and> NetInBuffer_extend example_consts [0x42] 4000
      ((host_connected NetSIOHub_init)\<lparr>server := (server NetSIOHub_init)\<lparr>inbuffer :=
          \<lparr>data = replicate 129 0x41, monitor_deadline = Some 5000\<rparr>\<rparr>\<rparr>)
     = handle_device_msg example_consts
        \<lparr>msg_id = NETSIO_DATA_BLOCK, arg = replicate 129 0x41 @ [0x42]\<rparr> None
        ((host_connected NetSIOHub_init)\<lparr>server := (server NetSIOHub_init)\<lparr>inbuffer :=
          \<lparr>data = [], monitor_deadline = Some 5000\<rparr>\<rparr>,
          log_out := [Debug_NET_FLUSH
                        \<lparr>msg_id = NETSIO_DATA_BLOCK, arg = replicate 129 0x41 @ [0x42]\<rparr>]\<rparr>)"
  using coalescing_buffer [where
      h = "(host_connected NetSIOHub_init)\<lparr>server := (server NetSIOHub_init)\<lparr>inbuffer :=
          \<lparr>data = [0x41], monitor_deadline = Some 5000\<rparr>\<rparr>\<rparr>"
      and bs = "[0x42]" and k = example_consts and t = 4000 and x = "0x41" and d = 5000]
    coalescing_buffer [where
      h = "(host_connected NetSIOHub_init)\<lparr>server := (server NetSIOHub_init)\<lparr>inbuffer :=
          \<lparr>data = [0x41], monitor_deadline = Some 5000\<rparr>\<rparr>\<rparr>"
      and bs = "[0x42]" and k = example_consts and t = 5000 and x = "0x41" and d = 5000]
    coalescing_buffer [where
      h = "(host_connected NetSIOHub_init)\<lparr>server := (server NetSIOHub_init)\<lparr>inbuffer :=
          \<lparr>data = replicate 129 0x41, monitor_deadline = Some 5000\<rparr>\<rparr>\<rparr>"
      and bs = "[0x42]" and k = example_consts and t = 4000]
  by (simp add: BUFFER_SIZE_def NetSIOHub_init_def host_connected_def debug_print_def)

theorem coalescing_buffer_counterexample:
  "state_of (buffer_monitor example_consts 5000
     (state_of (NetInBuffer_extend example_consts [0x42] 4000
        (state_of (NetInBuffer_extend example_consts [0x41] 0 (host_connected NetSIOHub_init))))))
     = (host_connected NetSIOHub_init)\<lparr>server := (server NetSIOHub_init)\<lparr>inbuffer :=
          \<lparr>data = [0x41, 0x42], monitor_deadline = Some 9000\<rparr>\<rparr>\<rparr>
   \<and> state_of (buffer_monitor example_consts 9000
     (state_of (NetInBuffer_extend example_consts [0x42] 4000
        (state_of (NetInBuffer_extend example_consts [0x41] 0 (host_connected NetSIOHub_init))))))
     = (host_connected NetSIOHub_init)\<lparr>server := (server NetSIOHub_init)\<lparr>inbuffer :=
          \<lparr>data = [], monitor_deadline = None\<rparr>\<rparr>,
        host_queue := \<lparr>items = [\<lparr>msg_id = NETSIO_DATA_BLOCK, arg = [0x41, 0x42]\<rparr>], maxsize = 8\<rparr>,
        log_out := [Debug_NET_FLUSH \<lparr>msg_id = NETSIO_DATA_BLOCK, arg = [0x41, 0x42]\<rparr>,
                    Debug_host_queue 0]\<rparr>"
  by (simp add: buffer_monitor_def NetInBuffer_extend_def NetInBuffer_flush_def flush_msg_def
      set_delay_def BUFFER_SIZE_def BUFFER_MAX_AGE_def state_of_def host_connected_def
      NetSIOHub_init_def handle_device_msg_def check_request_def SyncRequest_init_def
      to_host_queue_def debug_print_def Queue_put_def Queue_full_def Queue_qsize_def Queue_def
      NETSIO_DATA_BLOCK_def NETSIO_SYNC_RESPONSE_def)

subsection \<open>The bytes appended to a broadcast\<close>

text \<open>
C9, on the code. \<open>handle_host_msg_sync\<close> appends the serial number of the request to
  the argument of a sync message, and \<open>send_to_all\<close> appends the counter \<open>sn\<close> of the
  server to the argument of every message it broadcasts (lines 228 to 230, marked
  "TODO test only"). With one client registered, COMMAND_ON with the argument 0x31 is
  sent with the argument 0x31 0x00, and COMMAND_OFF_SYNC with an empty argument is sent
  with the argument 0x01 0x00: the request serial number and then the counter.
\<close>

theorem broadcast_appends_server_sn:
  "net_out (state_of (NetOutThread_run example_consts 1000
      (state_of (handle_host_msg \<lparr>msg_id = 0x11, arg = [0x31]\<rparr>
         (NetSIOHub_init\<lparr>server := (server NetSIOHub_init)\<lparr>clients :=
            [((''127.0.0.1'', 40000),
              \<lparr>address = (''127.0.0.1'', 40000), expire_time = 20000000, credit = 3\<rparr>)]\<rparr>\<rparr>)))))
     = [((''127.0.0.1'', 40000), \<lparr>msg_id = 0x11, arg = [0x31, 0x00]\<rparr>)]
   \<and> net_out (state_of (NetOutThread_run example_consts 1000
      (state_of (handle_host_msg_sync example_consts \<lparr>msg_id = 0x18, arg = []\<rparr> (\<lambda>h. h)
         (NetSIOHub_init\<lparr>server := (server NetSIOHub_init)\<lparr>clients :=
            [((''127.0.0.1'', 40000),
              \<lparr>address = (''127.0.0.1'', 40000), expire_time = 20000000, credit = 3\<rparr>)]\<rparr>\<rparr>)))))
     = [((''127.0.0.1'', 40000), \<lparr>msg_id = 0x18, arg = [0x01, 0x00]\<rparr>)]"
  by (simp add: NetOutThread_run_def send_to_all_def expired_def send_to_client_def
      handle_host_msg_sync_def handle_host_msg_def to_peripheral_def and_then_def
      set_request_def get_response_def connected_def clear_queue_def
      debug_print_def state_of_def Queue_get_nowait_def Queue_put_def Queue_full_def
      Queue_qsize_def Queue_def NetSIOHub_init_def SyncRequest_init_def
      NETSIO_COLD_RESET_def NETSIO_WARM_RESET_def NETSIO_DATA_BLOCK_def example_consts_def
      Let_def)

subsection \<open>A full queue\<close>

lemma to_peripheral_full:
  assumes "Queue_full (device_queue h)"
    and "msg_id msg \<noteq> NETSIO_COLD_RESET" and "msg_id msg \<noteq> NETSIO_WARM_RESET"
  shows "to_peripheral msg h =
           Blocks Device_queue msg
             (h\<lparr>log_out := log_out h @ [Trace_device_queue_FULL msg, Debug_device_queue_FULL]\<rparr>)"
  using assms
  by (simp add: to_peripheral_def debug_print_def Queue_put_def Queue_full_def Queue_qsize_def)

lemma to_host_queue_full:
  assumes "Queue_full (host_queue h)" and "msg_id msg \<noteq> NETSIO_SYNC_RESPONSE"
  shows "to_host_queue k msg h =
           Blocks Host_queue msg (h\<lparr>log_out := log_out h @ [Debug_host_queue_FULL]\<rparr>)"
  using assms
  by (simp add: to_host_queue_def debug_print_def Queue_put_def Queue_full_def Queue_qsize_def)

lemma to_host_queue_full_empty_response:
  assumes "Queue_full (host_queue h)" and "msg_id msg = NETSIO_SYNC_RESPONSE"
    and "arg msg = a0 # a1 # rest" and "uint a1 = NETSIO_EMPTY_SYNC k"
  shows "to_host_queue k msg h =
           Blocks Host_queue msg (h\<lparr>log_out := log_out h @ [Debug_host_queue_FULL]\<rparr>)"
  using assms
  by (simp add: to_host_queue_def getitem_def debug_print_def Queue_put_def Queue_full_def
      Queue_qsize_def)

lemma to_host_queue_full_replace:
  assumes "Queue_full (host_queue h)" and "msg_id msg = NETSIO_SYNC_RESPONSE"
    and "arg msg = a0 # a1 # a2 # rest" and "uint a1 \<noteq> NETSIO_EMPTY_SYNC k"
  shows "to_host_queue k msg h =
           Blocks Host_queue \<lparr>msg_id = NETSIO_DATA_BYTE, arg = [a2]\<rparr>
             (h\<lparr>log_out := log_out h @ [Debug_replace msg, Debug_host_queue_FULL]\<rparr>)"
  using assms
  by (simp add: to_host_queue_def getitem_def debug_print_def Queue_put_def Queue_full_def
      Queue_qsize_def Let_def NetSIOMsg_replace)

lemma to_host_queue_full_no_return:
  assumes "Queue_full (host_queue h)"
  shows "to_host_queue k msg h \<noteq> Returns v h'"
  using assms
  by (simp add: to_host_queue_def debug_print_def Queue_put_def Queue_full_def
      Queue_qsize_def Let_def split: option.split bool.split)

lemma handle_device_msg_passed:
  assumes "host_ready h" and "request (sync h) = Some r"
    and "is_response_to msg (sn (sync h)) = Some False"
    and "msg_id msg \<noteq> NETSIO_DATA_BYTE" and "msg_id msg \<noteq> NETSIO_DATA_BLOCK"
  shows "handle_device_msg k msg dev h = to_host_queue k msg (debug_print (Debug_passed msg) h)"
  using assms by (simp add: handle_device_msg_def check_request_def)

lemma Queue_put_after_get:
  assumes "Queue_full q" and "Queue_qsize q \<le> maxsize q" and "Queue_get_nowait q = Some (y, q')"
  shows "Queue_put q' x = Some (q'\<lparr>items := items q' @ [x]\<rparr>)"
  using assms
  by (auto simp add: Queue_put_def Queue_full_def Queue_qsize_def Queue_get_nowait_def
      split: list.splits)

lemma handle_device_msg_full_returns:
  assumes "host_ready h" and "Queue_full (host_queue h)"
    and "handle_device_msg k msg dev h = Returns v h'"
  shows "request (sync h) \<noteq> None
     \<and> (is_response_to msg (sn (sync h)) = Some True
        \<or> msg_id msg = NETSIO_DATA_BYTE \<or> msg_id msg = NETSIO_DATA_BLOCK)"
proof (cases "request (sync h)")
  case None
  then have "handle_device_msg k msg dev h = to_host_queue k msg h"
    using assms(1) by (simp add: handle_device_msg_no_request)
  then show ?thesis
    using assms(2,3) to_host_queue_full_no_return [of h k msg v h'] by simp
next
  case (Some r)
  show ?thesis
  proof (cases "is_response_to msg (sn (sync h))")
    case None
    then show ?thesis
      using assms(1,3) Some by (simp add: handle_device_msg_def check_request_def)
  next
    case (Some b)
    show ?thesis
    proof (cases "b \<or> msg_id msg = NETSIO_DATA_BYTE \<or> msg_id msg = NETSIO_DATA_BLOCK")
      case True
      then show ?thesis using Some \<open>request (sync h) = Some r\<close> by auto
    next
      case False
      then have "handle_device_msg k msg dev h
                   = to_host_queue k msg (debug_print (Debug_passed msg) h)"
        using assms(1) Some \<open>request (sync h) = Some r\<close>
        by (simp add: handle_device_msg_passed)
      moreover have "Queue_full (host_queue (debug_print (Debug_passed msg) h))"
        using assms(2) by (simp add: debug_print_def)
      ultimately show ?thesis
        using assms(3) to_host_queue_full_no_return [of "debug_print (Debug_passed msg) h" k msg v h']
        by simp
    qed
  qed
qed

text \<open>
  C3, as the code has it. A message for a full queue is not dropped. On the device queue
  (a reset apart, which empties the queue first) \<open>to_peripheral\<close> prints its two lines
  and then waits in \<open>put\<close>, holding the message. On the host queue, with a host
  attached, \<open>handle_device_msg\<close> prints its line and waits in \<open>put\<close> for every
  message it routes to the queue: a message with no request in flight, a message passed
  while a request is in flight, and a sync response that answers no request in flight,
  as it is with the empty marker and as the DATA_BYTE of its third byte otherwise. With
  the host queue full the call returns only for a message that the request in flight
  consumes: its response, or a DATA_BYTE or DATA_BLOCK, which is discarded then. The
  \<open>put\<close> on a full queue does not return, and once a consumer has taken one item from
  the full queue it appends the message.
\<close>

theorem full_queue_blocks:
  "(Queue_full (device_queue h) \<and> msg_id msg \<noteq> NETSIO_COLD_RESET
      \<and> msg_id msg \<noteq> NETSIO_WARM_RESET \<longrightarrow>
      to_peripheral msg h =
        Blocks Device_queue msg
          (h\<lparr>log_out := log_out h @ [Trace_device_queue_FULL msg, Debug_device_queue_FULL]\<rparr>))
   \<and> (host_ready h \<and> Queue_full (host_queue h) \<and> msg_id msg \<noteq> NETSIO_SYNC_RESPONSE
      \<and> \<not> (request (sync h) \<noteq> None
            \<and> (msg_id msg = NETSIO_DATA_BYTE \<or> msg_id msg = NETSIO_DATA_BLOCK)) \<longrightarrow>
      handle_device_msg k msg dev h =
        Blocks Host_queue msg
          (h\<lparr>log_out := log_out h
                 @ (if request (sync h) \<noteq> None then [Debug_passed msg] else [])
                 @ [Debug_host_queue_FULL]\<rparr>))
   \<and> (host_ready h \<and> Queue_full (host_queue h) \<and> msg_id msg = NETSIO_SYNC_RESPONSE
      \<and> arg msg = a0 # a1 # rest
      \<and> (request (sync h) = None \<or> uint a0 \<noteq> sn (sync h))
      \<and> uint a1 = NETSIO_EMPTY_SYNC k \<longrightarrow>
      handle_device_msg k msg dev h =
        Blocks Host_queue msg
          (h\<lparr>log_out := log_out h
                 @ (if request (sync h) \<noteq> None then [Debug_passed msg] else [])
                 @ [Debug_host_queue_FULL]\<rparr>))
   \<and> (host_ready h \<and> Queue_full (host_queue h) \<and> msg_id msg = NETSIO_SYNC_RESPONSE
      \<and> arg msg = a0 # a1 # a2 # others
      \<and> (request (sync h) = None \<or> uint a0 \<noteq> sn (sync h))
      \<and> uint a1 \<noteq> NETSIO_EMPTY_SYNC k \<longrightarrow>
      handle_device_msg k msg dev h =
        Blocks Host_queue \<lparr>msg_id = NETSIO_DATA_BYTE, arg = [a2]\<rparr>
          (h\<lparr>log_out := log_out h
                 @ (if request (sync h) \<noteq> None then [Debug_passed msg] else [])
                 @ [Debug_replace msg, Debug_host_queue_FULL]\<rparr>))
   \<and> (host_ready h \<and> Queue_full (host_queue h)
      \<and> handle_device_msg k msg dev h = Returns v h' \<longrightarrow>
      request (sync h) \<noteq> None
      \<and> (is_response_to msg (sn (sync h)) = Some True
         \<or> msg_id msg = NETSIO_DATA_BYTE \<or> msg_id msg = NETSIO_DATA_BLOCK))
   \<and> (Queue_full q \<longrightarrow> Queue_put q msg = None)
   \<and> (Queue_full q \<and> Queue_qsize q \<le> maxsize q \<and> Queue_get_nowait q = Some (y, q') \<longrightarrow>
      Queue_put q' msg = Some (q'\<lparr>items := items q' @ [msg]\<rparr>))"
proof -
  have plain: "handle_device_msg k msg dev h =
        Blocks Host_queue msg
          (h\<lparr>log_out := log_out h
                 @ (if request (sync h) \<noteq> None then [Debug_passed msg] else [])
                 @ [Debug_host_queue_FULL]\<rparr>)"
    if "host_ready h" "Queue_full (host_queue h)" "msg_id msg \<noteq> NETSIO_SYNC_RESPONSE"
      "\<not> (request (sync h) \<noteq> None
          \<and> (msg_id msg = NETSIO_DATA_BYTE \<or> msg_id msg = NETSIO_DATA_BLOCK))"
  proof (cases "request (sync h)")
    case None
    then show ?thesis
      using that by (simp add: handle_device_msg_no_request to_host_queue_full)
  next
    case (Some r)
    have "is_response_to msg (sn (sync h)) = Some False"
      using that(3) by (simp add: is_response_to_def)
    then have "handle_device_msg k msg dev h
                 = to_host_queue k msg (debug_print (Debug_passed msg) h)"
      using that Some by (simp add: handle_device_msg_passed)
    moreover have "Queue_full (host_queue (debug_print (Debug_passed msg) h))"
      using that(2) by (simp add: debug_print_def)
    ultimately show ?thesis
      using that(3) Some by (simp add: to_host_queue_full) (simp add: debug_print_def)
  qed
  have route: "handle_device_msg k msg dev h
        = to_host_queue k msg (if request (sync h) \<noteq> None
                               then debug_print (Debug_passed msg) h else h)"
    if "host_ready h" "msg_id msg = NETSIO_SYNC_RESPONSE" "arg msg = b0 # bs"
      "request (sync h) = None \<or> uint b0 \<noteq> sn (sync h)" for b0 bs
  proof (cases "request (sync h)")
    case None
    then show ?thesis using that by (simp add: handle_device_msg_no_request)
  next
    case (Some r)
    then have "is_response_to msg (sn (sync h)) = Some False"
      using that by (simp add: is_response_to_def getitem_def)
    then show ?thesis
      using that Some
      by (simp add: handle_device_msg_passed NETSIO_SYNC_RESPONSE_def NETSIO_DATA_BYTE_def
          NETSIO_DATA_BLOCK_def)
  qed
  have empty: "handle_device_msg k msg dev h =
        Blocks Host_queue msg
          (h\<lparr>log_out := log_out h
                 @ (if request (sync h) \<noteq> None then [Debug_passed msg] else [])
                 @ [Debug_host_queue_FULL]\<rparr>)"
    if "host_ready h" "Queue_full (host_queue h)" "msg_id msg = NETSIO_SYNC_RESPONSE"
      "arg msg = a0 # a1 # rest" "request (sync h) = None \<or> uint a0 \<noteq> sn (sync h)"
      "uint a1 = NETSIO_EMPTY_SYNC k"
  proof -
    have "Queue_full (host_queue (if request (sync h) \<noteq> None
                                  then debug_print (Debug_passed msg) h else h))"
      using that(2) by (simp add: debug_print_def)
    from to_host_queue_full_empty_response [OF this that(3,4,6)] route [OF that(1,3,4,5)]
    show ?thesis by (simp add: debug_print_def)
  qed
  have replace: "handle_device_msg k msg dev h =
        Blocks Host_queue \<lparr>msg_id = NETSIO_DATA_BYTE, arg = [a2]\<rparr>
          (h\<lparr>log_out := log_out h
                 @ (if request (sync h) \<noteq> None then [Debug_passed msg] else [])
                 @ [Debug_replace msg, Debug_host_queue_FULL]\<rparr>)"
    if "host_ready h" "Queue_full (host_queue h)" "msg_id msg = NETSIO_SYNC_RESPONSE"
      "arg msg = a0 # a1 # a2 # others" "request (sync h) = None \<or> uint a0 \<noteq> sn (sync h)"
      "uint a1 \<noteq> NETSIO_EMPTY_SYNC k"
  proof -
    have "Queue_full (host_queue (if request (sync h) \<noteq> None
                                  then debug_print (Debug_passed msg) h else h))"
      using that(2) by (simp add: debug_print_def)
    from to_host_queue_full_replace [OF this that(3,4,6)] route [OF that(1,3,4,5)]
    show ?thesis by (simp add: debug_print_def)
  qed
  have none: "Queue_put q msg = None" if "Queue_full q"
    using that by (simp add: Queue_put_def)
  show ?thesis
    using to_peripheral_full [of h msg] plain empty replace none
      handle_device_msg_full_returns [of h k msg dev v h'] Queue_put_after_get [of q y q' msg]
    by blast
qed


theorem full_queue_blocks_witness:
  "to_peripheral \<lparr>msg_id = 0x11, arg = [0x31]\<rparr>
      (NetSIOHub_init\<lparr>device_queue := \<lparr>items = replicate 16 \<lparr>msg_id = 0x02, arg = [0x53, 0, 0]\<rparr>,
                                         maxsize = 16\<rparr>\<rparr>)
     = Blocks Device_queue \<lparr>msg_id = 0x11, arg = [0x31]\<rparr>
         (NetSIOHub_init\<lparr>device_queue := \<lparr>items = replicate 16 \<lparr>msg_id = 0x02, arg = [0x53, 0, 0]\<rparr>,
                                            maxsize = 16\<rparr>,
                          log_out := [Trace_device_queue_FULL \<lparr>msg_id = 0x11, arg = [0x31]\<rparr>,
                                      Debug_device_queue_FULL]\<rparr>)
   \<and> handle_device_msg example_consts \<lparr>msg_id = 0x02, arg = [0x41, 0x42]\<rparr> None
        ((host_connected NetSIOHub_init)
           \<lparr>host_queue := \<lparr>items = replicate 8 \<lparr>msg_id = 0x01, arg = [0x43]\<rparr>, maxsize = 8\<rparr>\<rparr>)
     = Blocks Host_queue \<lparr>msg_id = 0x02, arg = [0x41, 0x42]\<rparr>
        ((host_connected NetSIOHub_init)
           \<lparr>host_queue := \<lparr>items = replicate 8 \<lparr>msg_id = 0x01, arg = [0x43]\<rparr>, maxsize = 8\<rparr>,
            log_out := [Debug_host_queue_FULL]\<rparr>)
   \<and> handle_device_msg example_consts \<lparr>msg_id = 0x80, arg = [0x00, 0x4B, 0x00, 0x00]\<rparr> None
        ((host_connected NetSIOHub_init)
           \<lparr>host_queue := \<lparr>items = replicate 8 \<lparr>msg_id = 0x01, arg = [0x43]\<rparr>, maxsize = 8\<rparr>,
            sync := \<lparr>sn = 1, request = Some 0x18, response = None, completed = False\<rparr>\<rparr>)
     = Blocks Host_queue \<lparr>msg_id = 0x80, arg = [0x00, 0x4B, 0x00, 0x00]\<rparr>
        ((host_connected NetSIOHub_init)
           \<lparr>host_queue := \<lparr>items = replicate 8 \<lparr>msg_id = 0x01, arg = [0x43]\<rparr>, maxsize = 8\<rparr>,
            sync := \<lparr>sn = 1, request = Some 0x18, response = None, completed = False\<rparr>,
            log_out := [Debug_passed \<lparr>msg_id = 0x80, arg = [0x00, 0x4B, 0x00, 0x00]\<rparr>,
                        Debug_host_queue_FULL]\<rparr>)
   \<and> handle_device_msg example_consts \<lparr>msg_id = 0x81, arg = [0x01, 0x01, 0x41, 0x00, 0x00]\<rparr> None
        ((host_connected NetSIOHub_init)
           \<lparr>host_queue := \<lparr>items = replicate 8 \<lparr>msg_id = 0x01, arg = [0x43]\<rparr>, maxsize = 8\<rparr>\<rparr>)
     = Blocks Host_queue \<lparr>msg_id = 0x01, arg = [0x41]\<rparr>
        ((host_connected NetSIOHub_init)
           \<lparr>host_queue := \<lparr>items = replicate 8 \<lparr>msg_id = 0x01, arg = [0x43]\<rparr>, maxsize = 8\<rparr>,
            log_out := [Debug_replace \<lparr>msg_id = 0x81, arg = [0x01, 0x01, 0x41, 0x00, 0x00]\<rparr>,
                        Debug_host_queue_FULL]\<rparr>)
   \<and> Queue_put \<lparr>items = [\<lparr>msg_id = 0x01, arg = [0x43]\<rparr>, \<lparr>msg_id = 0x01, arg = [0x44]\<rparr>],
                 maxsize = 2\<rparr> \<lparr>msg_id = 0x11, arg = [0x31]\<rparr> = None
   \<and> Queue_put \<lparr>items = [\<lparr>msg_id = 0x01, arg = [0x44]\<rparr>], maxsize = 2\<rparr>
        \<lparr>msg_id = 0x11, arg = [0x31]\<rparr>
     = Some \<lparr>items = [\<lparr>msg_id = 0x01, arg = [0x44]\<rparr>, \<lparr>msg_id = 0x11, arg = [0x31]\<rparr>],
             maxsize = 2\<rparr>"
  using full_queue_blocks [where
      h = "NetSIOHub_init\<lparr>device_queue := \<lparr>items = replicate 16 \<lparr>msg_id = 0x02, arg = [0x53, 0, 0]\<rparr>,
                                         maxsize = 16\<rparr>\<rparr>"
      and msg = "\<lparr>msg_id = 0x11, arg = [0x31]\<rparr>"
      and q = "\<lparr>items = [\<lparr>msg_id = 0x01, arg = [0x43]\<rparr>, \<lparr>msg_id = 0x01, arg = [0x44]\<rparr>],
               maxsize = 2\<rparr>"
      and y = "\<lparr>msg_id = 0x01, arg = [0x43]\<rparr>"
      and q' = "\<lparr>items = [\<lparr>msg_id = 0x01, arg = [0x44]\<rparr>], maxsize = 2\<rparr>"]
    full_queue_blocks [where
      h = "(host_connected NetSIOHub_init)
           \<lparr>host_queue := \<lparr>items = replicate 8 \<lparr>msg_id = 0x01, arg = [0x43]\<rparr>, maxsize = 8\<rparr>\<rparr>"
      and msg = "\<lparr>msg_id = 0x02, arg = [0x41, 0x42]\<rparr>" and k = example_consts and dev = None]
    full_queue_blocks [where
      h = "(host_connected NetSIOHub_init)
           \<lparr>host_queue := \<lparr>items = replicate 8 \<lparr>msg_id = 0x01, arg = [0x43]\<rparr>, maxsize = 8\<rparr>,
            sync := \<lparr>sn = 1, request = Some 0x18, response = None, completed = False\<rparr>\<rparr>"
      and msg = "\<lparr>msg_id = 0x80, arg = [0x00, 0x4B, 0x00, 0x00]\<rparr>"
      and k = example_consts and dev = None]
    full_queue_blocks [where
      h = "(host_connected NetSIOHub_init)
           \<lparr>host_queue := \<lparr>items = replicate 8 \<lparr>msg_id = 0x01, arg = [0x43]\<rparr>, maxsize = 8\<rparr>\<rparr>"
      and msg = "\<lparr>msg_id = 0x81, arg = [0x01, 0x01, 0x41, 0x00, 0x00]\<rparr>"
      and k = example_consts and dev = None
      and ?a0.0 = "0x01" and ?a1.0 = "0x01" and ?a2.0 = "0x41" and others = "[0x00, 0x00]"]
  by (simp add: host_connected_def NetSIOHub_init_def SyncRequest_init_def Queue_full_def
      Queue_qsize_def Queue_get_nowait_def NETSIO_COLD_RESET_def NETSIO_WARM_RESET_def
      NETSIO_SYNC_RESPONSE_def NETSIO_DATA_BYTE_def NETSIO_DATA_BLOCK_def example_consts_def)

theorem full_queue_blocks_counterexample:
  "to_peripheral \<lparr>msg_id = 0x11, arg = [0x31]\<rparr>
      (NetSIOHub_init\<lparr>device_queue := \<lparr>items = replicate 16 \<lparr>msg_id = 0x02, arg = [0x53, 0, 0]\<rparr>,
                                         maxsize = 16\<rparr>\<rparr>)
     = Blocks Device_queue \<lparr>msg_id = 0x11, arg = [0x31]\<rparr>
         (NetSIOHub_init\<lparr>device_queue := \<lparr>items = replicate 16 \<lparr>msg_id = 0x02, arg = [0x53, 0, 0]\<rparr>,
                                            maxsize = 16\<rparr>,
                          log_out := [Trace_device_queue_FULL \<lparr>msg_id = 0x11, arg = [0x31]\<rparr>,
                                      Debug_device_queue_FULL]\<rparr>)
   \<and> handle_device_msg example_consts \<lparr>msg_id = 0x02, arg = [0x41, 0x42]\<rparr> None
        ((host_connected NetSIOHub_init)
           \<lparr>host_queue := \<lparr>items = replicate 8 \<lparr>msg_id = 0x01, arg = [0x43]\<rparr>, maxsize = 8\<rparr>\<rparr>)
     = Blocks Host_queue \<lparr>msg_id = 0x02, arg = [0x41, 0x42]\<rparr>
        ((host_connected NetSIOHub_init)
           \<lparr>host_queue := \<lparr>items = replicate 8 \<lparr>msg_id = 0x01, arg = [0x43]\<rparr>, maxsize = 8\<rparr>,
            log_out := [Debug_host_queue_FULL]\<rparr>)"
  by (simp add: to_peripheral_def handle_device_msg_def check_request_def to_host_queue_def
      debug_print_def host_connected_def NetSIOHub_init_def SyncRequest_init_def Queue_full_def
      Queue_qsize_def Queue_put_def NETSIO_COLD_RESET_def NETSIO_WARM_RESET_def
      NETSIO_SYNC_RESPONSE_def Queue_def)

subsection \<open>Reset from the host\<close>























end
